theory Spec2Isabelle
  imports Complex_Main "HOL-Library.Sublist"
begin

section \<open>The ingestion script \<^verbatim>\<open>src/rag_doc_ingestion/ingest_docs.py\<close>\<close>

text \<open>
  The script is a straight-line driver around five libraries (document loader, chunker,
  embedding model, Chroma client, index constructor). The driver is embedded statement by
  statement; every library call is a fallible step whose behaviour is a field of the record
  \<open>libs\<close>, so that theorems quantified over \<open>libs\<close> hold whatever the libraries do.
  Effects are explicit: the two standard streams, the on-disk vector stores, and the
  sequence of library calls the process has issued.
\<close>

subsection \<open>Python exceptions\<close>

text \<open>
  \<open>Exception c m\<close> is an instance of class \<open>c\<close>, a subclass of \<^verbatim>\<open>Exception\<close>, with
  \<^verbatim>\<open>str(e) = m\<close>. \<open>BaseException c m\<close> is an instance of a class that derives from
  \<^verbatim>\<open>BaseException\<close> only (\<^verbatim>\<open>KeyboardInterrupt\<close>, \<^verbatim>\<open>SystemExit\<close>): the clause
  \<^verbatim>\<open>except Exception\<close> does not match it.
\<close>

datatype py_exc =
    Exception (exc_class: string) (exc_str: string)
  | BaseException (exc_class: string) (exc_str: string)

fun isinstance_Exception :: "py_exc \<Rightarrow> bool" where
  "isinstance_Exception (Exception c m) = True"
| "isinstance_Exception (BaseException c m) = False"

subsection \<open>Objects\<close>

record DocIngestionSettings =
  DOCUMENTS_DIR :: string
  VECTOR_STORE_DIR :: string
  COLLECTION_NAME :: string

record Document =
  doc_text :: string
  doc_metadata :: "(string \<times> string) list"

record Node =
  node_text :: string
  node_metadata :: "(string \<times> string) list"

text \<open>
  The embedding model object: its declared output dimension and its embedding function.
  Vector components are floats in the source; only the length of a vector is ever used
  here, so the component type plays no role.
\<close>

record HuggingFaceEmbedding =
  model_name :: string
  embed_dim :: nat
  get_text_embedding :: "string \<Rightarrow> py_exc + real list"

record chroma_record =
  embedding :: "real list"
  document :: string
  metadata :: "(string \<times> string) list"

text \<open>A store directory holds named collections; the disk maps store paths to them.\<close>

type_synonym chroma_db = "string \<rightharpoonup> chroma_record list"
type_synonym disk = "string \<rightharpoonup> chroma_db"

datatype SimpleDirectoryReader = SimpleDirectoryReader (input_dir: string)
datatype SimpleNodeParser = SimpleNodeParser (chunk_size: nat) (chunk_overlap: nat)
datatype PersistentClient = PersistentClient (client_path: string)
datatype Collection = Collection (coll_path: string) (coll_name: string)
datatype ChromaVectorStore = ChromaVectorStore (chroma_collection: Collection)
datatype StorageContext = StorageContext (sc_vector_store: ChromaVectorStore)
datatype VectorStoreIndex = VectorStoreIndex (index_storage_context: StorageContext)

subsection \<open>Library calls and the process state\<close>

datatype call =
    Call_DocIngestionSettings
  | Call_HuggingFaceEmbedding
  | Call_build_vector_store_from_documents
  | Call_SimpleDirectoryReader string
  | Call_load_data
  | Call_from_defaults nat nat
  | Call_get_nodes_from_documents
  | Call_PersistentClient string
  | Call_get_or_create_collection string
  | Call_ChromaVectorStore
  | Call_StorageContext_from_defaults
  | Call_VectorStoreIndex

text \<open>
  \<open>stdout\<close> and \<open>stderr\<close> hold what has been written to each stream, one entry per
  write. \<open>tick\<close> counts the log records created so far; wall-clock time is outside the
  model, and \<open>asctime l k\<close> below is the formatted time at which record \<open>k\<close> was created.
  \<open>calls\<close> is the sequence of library calls (and entries of the driver) issued so far.
\<close>

record world =
  stdout :: "string list"
  stderr :: "string list"
  tick :: nat
  disk :: disk
  calls :: "call list"

text \<open>
  The libraries the script imports. The loader and the chunker read their arguments (and
  the documents directory, which is fixed for a given \<open>libs\<close>); the Chroma client and the
  index constructor read and write the disk. \<open>new_DocIngestionSettings\<close> is the settings
  class of the repository's \<^verbatim>\<open>config\<close> module, which reads the process environment.
\<close>

record libs =
  asctime :: "nat \<Rightarrow> string"
  new_DocIngestionSettings :: "py_exc + DocIngestionSettings"
  new_HuggingFaceEmbedding :: "py_exc + HuggingFaceEmbedding"
  new_SimpleDirectoryReader :: "string \<Rightarrow> py_exc + SimpleDirectoryReader"
  load_data :: "SimpleDirectoryReader \<Rightarrow> py_exc + Document list"
  from_defaults :: "nat \<Rightarrow> nat \<Rightarrow> py_exc + SimpleNodeParser"
  get_nodes_from_documents :: "SimpleNodeParser \<Rightarrow> Document list \<Rightarrow> py_exc + Node list"
  new_PersistentClient :: "string \<Rightarrow> disk \<Rightarrow> (py_exc + PersistentClient) \<times> disk"
  get_or_create_collection ::
    "PersistentClient \<Rightarrow> string \<Rightarrow> disk \<Rightarrow> (py_exc + Collection) \<times> disk"
  new_ChromaVectorStore :: "Collection \<Rightarrow> py_exc + ChromaVectorStore"
  StorageContext_from_defaults :: "ChromaVectorStore \<Rightarrow> py_exc + StorageContext"
  new_VectorStoreIndex ::
    "Node list \<Rightarrow> StorageContext \<Rightarrow> ChromaVectorStore \<Rightarrow> HuggingFaceEmbedding \<Rightarrow> disk
      \<Rightarrow> (py_exc + VectorStoreIndex) \<times> disk"

subsection \<open>Statements: state passing with exceptions\<close>

text \<open>
  A statement maps the state to a result (\<open>Inl\<close> a raised exception, \<open>Inr\<close> a value) and
  the state it leaves behind. A raise keeps the effects that happened before it.
\<close>

type_synonym 'a stmt = "world \<Rightarrow> (py_exc + 'a) \<times> world"

definition return_stmt :: "'a \<Rightarrow> 'a stmt" where
  "return_stmt x w = (Inr x, w)"

definition bind_stmt :: "'a stmt \<Rightarrow> ('a \<Rightarrow> 'b stmt) \<Rightarrow> 'b stmt" where
  "bind_stmt m f w = (case m w of (Inl e, w') \<Rightarrow> (Inl e, w') | (Inr x, w') \<Rightarrow> f x w')"

text \<open>\<^verbatim>\<open>try: body except Exception as e: handler(e)\<close>\<close>

definition try_except_Exception :: "'a stmt \<Rightarrow> (py_exc \<Rightarrow> 'a stmt) \<Rightarrow> 'a stmt" where
  "try_except_Exception body handler w =
     (case body w of
        (Inr x, w') \<Rightarrow> (Inr x, w')
      | (Inl e, w') \<Rightarrow> if isinstance_Exception e then handler e w' else (Inl e, w'))"

text \<open>A call of a library function that does not touch the disk, and one that does.\<close>

definition call_pure :: "call \<Rightarrow> py_exc + 'a \<Rightarrow> 'a stmt" where
  "call_pure c r w = (r, w\<lparr>calls := calls w @ [c]\<rparr>)"

definition call_disk :: "call \<Rightarrow> (disk \<Rightarrow> (py_exc + 'a) \<times> disk) \<Rightarrow> 'a stmt" where
  "call_disk c f w =
     (case f (disk w) of (r, d) \<Rightarrow> (r, w\<lparr>calls := calls w @ [c], disk := d\<rparr>))"

subsection \<open>Logging\<close>

datatype loglevel = DEBUG | INFO | WARNING | ERROR | CRITICAL

fun levelno :: "loglevel \<Rightarrow> nat" where
  "levelno DEBUG = 10"
| "levelno INFO = 20"
| "levelno WARNING = 30"
| "levelno ERROR = 40"
| "levelno CRITICAL = 50"

fun levelname :: "loglevel \<Rightarrow> string" where
  "levelname DEBUG = ''DEBUG''"
| "levelname INFO = ''INFO''"
| "levelname WARNING = ''WARNING''"
| "levelname ERROR = ''ERROR''"
| "levelname CRITICAL = ''CRITICAL''"

datatype stream = Stdout | Stderr

datatype fmt_part = Asctime | Levelname | Message | Literal string

record logging_config =
  root_level :: loglevel
  fmt :: "fmt_part list"
  handler_stream :: stream

text \<open>
  \<^verbatim>\<open>logging.basicConfig(level=..., format=..., stream=None)\<close> installs one
  \<^verbatim>\<open>StreamHandler\<close> on the root logger; a \<^verbatim>\<open>StreamHandler\<close> built without a stream
  writes to \<^verbatim>\<open>sys.stderr\<close>.
\<close>

definition basicConfig :: "loglevel \<Rightarrow> fmt_part list \<Rightarrow> stream option \<Rightarrow> logging_config" where
  "basicConfig lvl f strm =
     \<lparr>root_level = lvl, fmt = f,
      handler_stream = (case strm of None \<Rightarrow> Stderr | Some s \<Rightarrow> s)\<rparr>"

text \<open>
  Lines 14-17 of the script: level INFO, format
  \<^verbatim>\<open>'%(asctime)s - %(levelname)s - %(message)s'\<close>, no \<^verbatim>\<open>stream\<close> argument.
\<close>

definition logging_cfg :: logging_config where
  "logging_cfg =
     basicConfig INFO [Asctime, Literal '' - '', Levelname, Literal '' - '', Message] None"

fun fmt_part_str :: "string \<Rightarrow> loglevel \<Rightarrow> string \<Rightarrow> fmt_part \<Rightarrow> string" where
  "fmt_part_str t lvl msg Asctime = t"
| "fmt_part_str t lvl msg Levelname = levelname lvl"
| "fmt_part_str t lvl msg Message = msg"
| "fmt_part_str t lvl msg (Literal s) = s"

definition format_record :: "fmt_part list \<Rightarrow> string \<Rightarrow> loglevel \<Rightarrow> string \<Rightarrow> string" where
  "format_record f t lvl msg = concat (map (fmt_part_str t lvl msg) f)"

definition write_stream :: "stream \<Rightarrow> string \<Rightarrow> world \<Rightarrow> world" where
  "write_stream s line w =
     (case s of Stdout \<Rightarrow> w\<lparr>stdout := stdout w @ [line]\<rparr>
              | Stderr \<Rightarrow> w\<lparr>stderr := stderr w @ [line]\<rparr>)"

text \<open>
  \<^verbatim>\<open>logger.log(lvl, msg)\<close> on the module logger, which has no level and no handler of
  its own: the record is created when \<open>lvl\<close> reaches the root level and is handed to the
  root handler, which formats it and writes it to its stream.
\<close>

definition logger_log :: "libs \<Rightarrow> loglevel \<Rightarrow> string \<Rightarrow> unit stmt" where
  "logger_log l lvl msg w =
     (if levelno (root_level logging_cfg) \<le> levelno lvl
      then (Inr (),
            write_stream (handler_stream logging_cfg)
              (format_record (fmt logging_cfg) (asctime l (tick w)) lvl msg)
              (w\<lparr>tick := Suc (tick w)\<rparr>))
      else (Inr (), w))"

definition logger_info :: "libs \<Rightarrow> string \<Rightarrow> unit stmt" where
  "logger_info l msg = logger_log l INFO msg"

definition logger_error :: "libs \<Rightarrow> string \<Rightarrow> unit stmt" where
  "logger_error l msg = logger_log l ERROR msg"

text \<open>\<^verbatim>\<open>str(n)\<close> for a non-negative integer, as the f-string on line 46 renders \<^verbatim>\<open>len(nodes)\<close>.\<close>

definition digit_char :: "nat \<Rightarrow> char" where
  "digit_char d = char_of (48 + d)"

fun str_nat :: "nat \<Rightarrow> string" where
  "str_nat n = (if n < 10 then [digit_char n] else str_nat (n div 10) @ [digit_char (n mod 10)])"

declare str_nat.simps [simp del]

subsection \<open>The driver\<close>

text \<open>
  Lines 32-72, the body of the \<^verbatim>\<open>try\<close>. The module globals \<^verbatim>\<open>settings\<close> and
  \<^verbatim>\<open>embed_model\<close> are passed explicitly.
\<close>

definition try_body :: "libs \<Rightarrow> DocIngestionSettings \<Rightarrow> HuggingFaceEmbedding \<Rightarrow> int stmt" where
  "try_body l settings embed_model =
    (let docs_dir_path = DOCUMENTS_DIR settings;
         vector_store_path = VECTOR_STORE_DIR settings;
         collection_name = COLLECTION_NAME settings
     in
     bind_stmt (logger_info l (''Loading documents from directory: '' @ docs_dir_path)) (\<lambda>_.
     bind_stmt (call_pure (Call_SimpleDirectoryReader docs_dir_path)
             (new_SimpleDirectoryReader l docs_dir_path)) (\<lambda>loader.
     bind_stmt (call_pure Call_load_data (load_data l loader)) (\<lambda>documents.
     bind_stmt (call_pure (Call_from_defaults 1024 50) (from_defaults l 1024 50)) (\<lambda>parser.
     bind_stmt (logger_info l ''Parsing documents into nodes.'') (\<lambda>_.
     bind_stmt (call_pure Call_get_nodes_from_documents
             (get_nodes_from_documents l parser documents)) (\<lambda>nodes.
     bind_stmt (logger_info l (''Parsed '' @ str_nat (length nodes) @ '' nodes.'')) (\<lambda>_.
     bind_stmt (logger_info l
             (''Initializing ChromaDB persistent client at: '' @ vector_store_path)) (\<lambda>_.
     bind_stmt (call_disk (Call_PersistentClient vector_store_path)
             (new_PersistentClient l vector_store_path)) (\<lambda>db.
     bind_stmt (call_disk (Call_get_or_create_collection collection_name)
             (get_or_create_collection l db collection_name)) (\<lambda>chroma_collection.
     bind_stmt (logger_info l
             (''Creating Chroma vector store with collection name: '' @ collection_name)) (\<lambda>_.
     bind_stmt (call_pure Call_ChromaVectorStore
             (new_ChromaVectorStore l chroma_collection)) (\<lambda>vector_store.
     bind_stmt (call_pure Call_StorageContext_from_defaults
             (StorageContext_from_defaults l vector_store)) (\<lambda>storage_context.
     bind_stmt (logger_info l ''Building vector store index.'') (\<lambda>_.
     bind_stmt (call_disk Call_VectorStoreIndex
             (new_VectorStoreIndex l nodes storage_context vector_store embed_model)) (\<lambda>index.
     bind_stmt (logger_info l ''Vector store build successfully.'') (\<lambda>_.
     return_stmt 0)))))))))))))))))"

text \<open>
  Lines 29-75. The first step records the entry of the driver in the call sequence; it has
  no counterpart in the source and no other effect.
\<close>

definition build_vector_store_from_documents ::
  "libs \<Rightarrow> DocIngestionSettings \<Rightarrow> HuggingFaceEmbedding \<Rightarrow> int stmt" where
  "build_vector_store_from_documents l settings embed_model =
     bind_stmt (call_pure Call_build_vector_store_from_documents (Inr ())) (\<lambda>_.
     bind_stmt (logger_info l ''Starting vector store ingestion process.'') (\<lambda>_.
     try_except_Exception (try_body l settings embed_model) (\<lambda>e.
       bind_stmt (logger_error l (''Error during vector store build: '' @ exc_str e)) (\<lambda>_.
       return_stmt 1))))"

text \<open>
  The module, top to bottom. \<open>is_main\<close> is \<^verbatim>\<open>__name__ == "__main__"\<close>. The last
  statement calls the driver and drops what it returns.
\<close>

definition module_body :: "libs \<Rightarrow> bool \<Rightarrow> unit stmt" where
  "module_body l is_main =
     bind_stmt (call_pure Call_DocIngestionSettings (new_DocIngestionSettings l)) (\<lambda>settings.
     bind_stmt (logger_info l ''Loading HuggingFace embedding model...'') (\<lambda>_.
     bind_stmt (call_pure Call_HuggingFaceEmbedding (new_HuggingFaceEmbedding l)) (\<lambda>embed_model.
     if is_main
     then bind_stmt (build_vector_store_from_documents l settings embed_model) (\<lambda>_. return_stmt ())
     else return_stmt ())))"

text \<open>
  The exit status of \<^verbatim>\<open>python ingest_docs.py\<close>: 0 when the module body runs to its
  end, 1 when an instance of \<^verbatim>\<open>Exception\<close> escapes it. For the other exception classes
  the status depends on the class (\<^verbatim>\<open>SystemExit\<close> carries its own) and is not modelled.
  Neither is the traceback the interpreter prints for an exception that escapes.
\<close>

definition exit_code :: "py_exc + unit \<Rightarrow> int option" where
  "exit_code r =
     (case r of Inr _ \<Rightarrow> Some 0
              | Inl e \<Rightarrow> if isinstance_Exception e then Some 1 else None)"

definition run_script :: "libs \<Rightarrow> world \<Rightarrow> int option \<times> world" where
  "run_script l w = (case module_body l True w of (r, w') \<Rightarrow> (exit_code r, w'))"

subsection \<open>The libraries as the specification describes them\<close>

text \<open>
  The loader and the vector store are third-party packages; none of their code is part of
  the repository. Where a statement depends on what they do, they are instantiated with the
  behaviour the specification gives them.
\<close>

type_synonym docs_fs = "string \<rightharpoonup> Document list"

text \<open>
  Modelled from the spec: the constructor of the document loader (package llama_index, not
  under src/). Section 4.2, step 1: the load "fails if the directory does not exist or
  contains no readable documents"; section 7 (b) makes this a load error that the driver's
  handler catches. \<open>fs dir\<close> is the list of readable documents of directory \<open>dir\<close>, or
  \<open>None\<close> when there is no such directory.
\<close>

definition spec_new_SimpleDirectoryReader ::
  "docs_fs \<Rightarrow> string \<Rightarrow> py_exc + SimpleDirectoryReader" where
  "spec_new_SimpleDirectoryReader fs dir =
     (case fs dir of
        None \<Rightarrow> Inl (Exception ''ValueError'' (''Directory '' @ dir @ '' does not exist.''))
      | Some docs \<Rightarrow>
          if docs = [] then Inl (Exception ''ValueError'' (''No files found in '' @ dir @ ''.''))
          else Inr (SimpleDirectoryReader dir))"

text \<open>
  Modelled from the spec: \<^verbatim>\<open>load_data\<close> of the document loader (package llama_index, not
  under src/). Section 2, item 2: it "reads all files from the source directory into an
  in-memory sequence of document records".
\<close>

definition spec_load_data :: "docs_fs \<Rightarrow> SimpleDirectoryReader \<Rightarrow> py_exc + Document list" where
  "spec_load_data fs loader =
     (case fs (input_dir loader) of
        None \<Rightarrow>
          Inl (Exception ''ValueError'' (''Directory '' @ input_dir loader @ '' does not exist.''))
      | Some docs \<Rightarrow> Inr docs)"

definition with_spec_loader :: "docs_fs \<Rightarrow> libs \<Rightarrow> libs" where
  "with_spec_loader fs l =
     l\<lparr>new_SimpleDirectoryReader := spec_new_SimpleDirectoryReader fs,
       load_data := spec_load_data fs\<rparr>"

text \<open>
  Modelled from the spec: the persistent Chroma client (package chromadb, not under src/).
  Section 4.2, step 3: "open a persistent store rooted at the configured path". Opening a
  path that holds no store creates an empty one; an existing store is left as it is.
\<close>

definition spec_new_PersistentClient :: "string \<Rightarrow> disk \<Rightarrow> (py_exc + PersistentClient) \<times> disk" where
  "spec_new_PersistentClient path d =
     (Inr (PersistentClient path),
      (case d path of None \<Rightarrow> d(path \<mapsto> Map.empty) | Some db \<Rightarrow> d))"

text \<open>
  Modelled from the spec: \<^verbatim>\<open>get_or_create_collection\<close> of the Chroma client (package
  chromadb, not under src/). Section 3: a collection is "created on first use (get or
  create, idempotent), otherwise reused across runs".
\<close>

definition spec_get_or_create_collection ::
  "PersistentClient \<Rightarrow> string \<Rightarrow> disk \<Rightarrow> (py_exc + Collection) \<times> disk" where
  "spec_get_or_create_collection db name d =
     (case d (client_path db) of
        None \<Rightarrow> (Inl (Exception ''ChromaError'' ''store not found''), d)
      | Some colls \<Rightarrow>
          (Inr (Collection (client_path db) name),
           (case colls name of
              None \<Rightarrow> d(client_path db \<mapsto> colls(name \<mapsto> []))
            | Some rs \<Rightarrow> d)))"

text \<open>
  Modelled from the spec: the two wrappers around the collection (package llama_index, not
  under src/). Section 2: "wrap store in a standard interface"; they only hold references.
\<close>

definition spec_new_ChromaVectorStore :: "Collection \<Rightarrow> py_exc + ChromaVectorStore" where
  "spec_new_ChromaVectorStore c = Inr (ChromaVectorStore c)"

definition spec_StorageContext_from_defaults :: "ChromaVectorStore \<Rightarrow> py_exc + StorageContext" where
  "spec_StorageContext_from_defaults vs = Inr (StorageContext vs)"

text \<open>
  Modelled from the spec: insertion of one record into a collection (package chromadb, not
  under src/). Section 2, item 5: the store holds (vector, text, metadata) triples in a
  named collection; section 3: runs "append into the same collection".
\<close>

definition collection_add :: "Collection \<Rightarrow> chroma_record \<Rightarrow> disk \<Rightarrow> (py_exc + unit) \<times> disk" where
  "collection_add c r d =
     (case d (coll_path c) of
        None \<Rightarrow> (Inl (Exception ''ChromaError'' ''store not found''), d)
      | Some colls \<Rightarrow>
          (case colls (coll_name c) of
             None \<Rightarrow> (Inl (Exception ''ChromaError'' ''collection not found''), d)
           | Some rs \<Rightarrow> (Inr (), d(coll_path c \<mapsto> colls(coll_name c \<mapsto> rs @ [r])))))"

text \<open>
  Modelled from the spec: the work of the index constructor (package llama_index, not under
  src/). Section 4.2, step 4: it "computes one embedding vector per node and writes all
  (vector, text, metadata) triples into the collection"; step 5: there is "no rollback of
  already-written nodes" when a failure occurs on the way.
\<close>

fun spec_index_nodes ::
  "HuggingFaceEmbedding \<Rightarrow> Collection \<Rightarrow> Node list \<Rightarrow> disk \<Rightarrow> (py_exc + unit) \<times> disk" where
  "spec_index_nodes em c [] d = (Inr (), d)"
| "spec_index_nodes em c (n # ns) d =
     (case get_text_embedding em (node_text n) of
        Inl e \<Rightarrow> (Inl e, d)
      | Inr v \<Rightarrow>
          (case collection_add c
                  \<lparr>embedding = v, document = node_text n, metadata = node_metadata n\<rparr> d of
             (Inl e, d') \<Rightarrow> (Inl e, d')
           | (Inr u, d') \<Rightarrow> spec_index_nodes em c ns d'))"

text \<open>
  Modelled from the spec: the index constructor (package llama_index, not under src/).
  Section 2: building the index, "as a side effect of construction, embeds every node and
  writes it into the store".
\<close>

definition spec_new_VectorStoreIndex ::
  "Node list \<Rightarrow> StorageContext \<Rightarrow> ChromaVectorStore \<Rightarrow> HuggingFaceEmbedding \<Rightarrow> disk
    \<Rightarrow> (py_exc + VectorStoreIndex) \<times> disk" where
  "spec_new_VectorStoreIndex nodes sc vs em d =
     (case spec_index_nodes em (chroma_collection vs) nodes d of
        (Inl e, d') \<Rightarrow> (Inl e, d')
      | (Inr u, d') \<Rightarrow> (Inr (VectorStoreIndex sc), d'))"

definition with_spec_store :: "libs \<Rightarrow> libs" where
  "with_spec_store l =
     l\<lparr>new_PersistentClient := spec_new_PersistentClient,
       get_or_create_collection := spec_get_or_create_collection,
       new_ChromaVectorStore := spec_new_ChromaVectorStore,
       StorageContext_from_defaults := spec_StorageContext_from_defaults,
       new_VectorStoreIndex := spec_new_VectorStoreIndex\<rparr>"

subsection \<open>Observations on a run\<close>

text \<open>The library calls of lines 39-70 in program order.\<close>

definition call_plan :: "DocIngestionSettings \<Rightarrow> call list" where
  "call_plan s =
     [Call_SimpleDirectoryReader (DOCUMENTS_DIR s), Call_load_data, Call_from_defaults 1024 50,
      Call_get_nodes_from_documents, Call_PersistentClient (VECTOR_STORE_DIR s),
      Call_get_or_create_collection (COLLECTION_NAME s), Call_ChromaVectorStore,
      Call_StorageContext_from_defaults, Call_VectorStoreIndex]"

text \<open>The outcome of document loading and node parsing, lines 39-45.\<close>

definition loading_and_parsing :: "libs \<Rightarrow> DocIngestionSettings \<Rightarrow> py_exc + Node list" where
  "loading_and_parsing l s =
     (case new_SimpleDirectoryReader l (DOCUMENTS_DIR s) of
        Inl e \<Rightarrow> Inl e
      | Inr loader \<Rightarrow>
          (case load_data l loader of
             Inl e \<Rightarrow> Inl e
           | Inr documents \<Rightarrow>
               (case from_defaults l 1024 50 of
                  Inl e \<Rightarrow> Inl e
                | Inr parser \<Rightarrow> get_nodes_from_documents l parser documents)))"

text \<open>What a run from \<open>w\<close> to \<open>w'\<close> added to the call sequence and to the streams.\<close>

definition new_calls :: "world \<Rightarrow> world \<Rightarrow> call list" where
  "new_calls w w' = drop (length (calls w)) (calls w')"

definition new_stderr :: "world \<Rightarrow> world \<Rightarrow> string list" where
  "new_stderr w w' = drop (length (stderr w)) (stderr w')"

definition new_stdout :: "world \<Rightarrow> world \<Rightarrow> string list" where
  "new_stdout w w' = drop (length (stdout w)) (stdout w')"

text \<open>The state after a call of the logger, and the state in which the \<^verbatim>\<open>try\<close> is entered.\<close>

definition logged :: "libs \<Rightarrow> loglevel \<Rightarrow> string \<Rightarrow> world \<Rightarrow> world" where
  "logged l lvl msg w = snd (logger_log l lvl msg w)"

definition try_entry :: "libs \<Rightarrow> world \<Rightarrow> world" where
  "try_entry l w =
     logged l INFO ''Starting vector store ingestion process.''
       (w\<lparr>calls := calls w @ [Call_build_vector_store_from_documents]\<rparr>)"

text \<open>
  The state of the process when the two constructors of the module's top level (lines 23
  and 26) have returned.
\<close>

definition after_import :: "libs \<Rightarrow> world \<Rightarrow> world" where
  "after_import l w =
     (logged l INFO ''Loading HuggingFace embedding model...''
        (w\<lparr>calls := calls w @ [Call_DocIngestionSettings]\<rparr>))
     \<lparr>calls := calls w @ [Call_DocIngestionSettings, Call_HuggingFaceEmbedding]\<rparr>"

text \<open>The text the configured format gives a record created at tick \<open>k\<close>.\<close>

definition log_line :: "libs \<Rightarrow> nat \<Rightarrow> loglevel \<Rightarrow> string \<Rightarrow> string" where
  "log_line l k lvl msg = asctime l k @ '' - '' @ levelname lvl @ '' - '' @ msg"

definition single_line :: "string \<Rightarrow> bool" where
  "single_line s \<longleftrightarrow> CHR 0x0A \<notin> set s"

text \<open>
  \<open>w'\<close> differs from \<open>w\<close> in its streams by log lines only: nothing on the standard output,
  and on the standard error a sequence of formatted records of level INFO or ERROR.
\<close>

definition logs_only :: "libs \<Rightarrow> world \<Rightarrow> world \<Rightarrow> bool" where
  "logs_only l w w' \<longleftrightarrow>
     stdout w' = stdout w \<and>
     (\<exists>ls. stderr w' = stderr w @ ls \<and>
        (\<forall>x\<in>set ls. \<exists>k lvl msg. (lvl = INFO \<or> lvl = ERROR) \<and> x = log_line l k lvl msg))"

text \<open>Every run of statement \<open>m\<close> relates the state it starts in to the state it leaves.\<close>

definition preserves :: "(world \<Rightarrow> world \<Rightarrow> bool) \<Rightarrow> 'a stmt \<Rightarrow> bool" where
  "preserves R m \<longleftrightarrow> (\<forall>w. R w (snd (m w)))"

text \<open>The records of collection \<open>name\<close> in the store at \<open>path\<close>; none when either is absent.\<close>

definition collection_records :: "disk \<Rightarrow> string \<Rightarrow> string \<Rightarrow> chroma_record list" where
  "collection_records d path name =
     (case d path of
        None \<Rightarrow> []
      | Some colls \<Rightarrow> (case colls name of None \<Rightarrow> [] | Some rs \<Rightarrow> rs))"

text \<open>The record the index writes for a node, given the node's vector.\<close>

definition node_record :: "Node \<Rightarrow> real list \<Rightarrow> chroma_record" where
  "node_record n v = \<lparr>embedding = v, document = node_text n, metadata = node_metadata n\<rparr>"

text \<open>The records the index writes for a list of nodes when every embedding succeeds.\<close>

fun node_records :: "HuggingFaceEmbedding \<Rightarrow> Node list \<Rightarrow> py_exc + chroma_record list" where
  "node_records em [] = Inr []"
| "node_records em (n # ns) =
     (case get_text_embedding em (node_text n) of
        Inl e \<Rightarrow> Inl e
      | Inr v \<Rightarrow>
          (case node_records em ns of
             Inl e \<Rightarrow> Inl e
           | Inr rs \<Rightarrow> Inr (node_record n v # rs)))"

text \<open>
  From disk \<open>d\<close> to disk \<open>d'\<close> every collection has kept its records and gained, at its
  end, only records whose vector has length \<open>n\<close>.
\<close>

definition appends_of_dim :: "nat \<Rightarrow> disk \<Rightarrow> disk \<Rightarrow> bool" where
  "appends_of_dim n d d' \<longleftrightarrow>
     (\<forall>path name. \<exists>new.
        collection_records d' path name = collection_records d path name @ new \<and>
        (\<forall>r\<in>set new. length (embedding r) = n))"

subsection \<open>Sample values\<close>

definition ex_settings :: DocIngestionSettings where
  "ex_settings = \<lparr>DOCUMENTS_DIR = ''docs'', VECTOR_STORE_DIR = ''db'', COLLECTION_NAME = ''c''\<rparr>"

definition ex_model :: HuggingFaceEmbedding where
  "ex_model = \<lparr>model_name = ''m'', embed_dim = 2, get_text_embedding = (\<lambda>t. Inr [0, 1])\<rparr>"

definition ex_world :: world where
  "ex_world = \<lparr>stdout = [], stderr = [], tick = 0, disk = Map.empty, calls = []\<rparr>"

definition ex_fs :: docs_fs where
  "ex_fs = [''docs'' \<mapsto> [\<lparr>doc_text = ''hi'', doc_metadata = []\<rparr>]]"

definition ex_fs_empty_dir :: docs_fs where
  "ex_fs_empty_dir = [''docs'' \<mapsto> []]"

text \<open>A file system without the directory \<^verbatim>\<open>docs\<close>.\<close>

definition ex_fs_other_dir :: docs_fs where
  "ex_fs_other_dir = [''elsewhere'' \<mapsto> [\<lparr>doc_text = ''hi'', doc_metadata = []\<rparr>]]"

definition node_of_document :: "Document \<Rightarrow> Node" where
  "node_of_document d = \<lparr>node_text = doc_text d, node_metadata = doc_metadata d\<rparr>"

text \<open>Libraries that all succeed: one document in \<^verbatim>\<open>docs\<close>, one node per document.\<close>

definition ex_libs :: libs where
  "ex_libs =
     \<lparr>asctime = (\<lambda>k. ''T''),
      new_DocIngestionSettings = Inr ex_settings,
      new_HuggingFaceEmbedding = Inr ex_model,
      new_SimpleDirectoryReader = spec_new_SimpleDirectoryReader ex_fs,
      load_data = spec_load_data ex_fs,
      from_defaults = (\<lambda>size overlap. Inr (SimpleNodeParser size overlap)),
      get_nodes_from_documents = (\<lambda>parser docs. Inr (map node_of_document docs)),
      new_PersistentClient = spec_new_PersistentClient,
      get_or_create_collection = spec_get_or_create_collection,
      new_ChromaVectorStore = spec_new_ChromaVectorStore,
      StorageContext_from_defaults = spec_StorageContext_from_defaults,
      new_VectorStoreIndex = spec_new_VectorStoreIndex\<rparr>"

text \<open>The same libraries with a loader whose error message spans two lines.\<close>

definition ex_libs_load_error :: libs where
  "ex_libs_load_error =
     ex_libs\<lparr>new_SimpleDirectoryReader :=
       (\<lambda>dir. Inl (Exception ''OSError'' (''a'' @ [CHR 0x0A] @ ''b'')))\<rparr>"

text \<open>The same libraries with a load that is interrupted from the keyboard.\<close>

definition ex_libs_interrupted :: libs where
  "ex_libs_interrupted =
     ex_libs\<lparr>load_data := (\<lambda>loader. Inl (BaseException ''KeyboardInterrupt'' []))\<rparr>"

text \<open>The same libraries with a chunker that refuses chunk size 1024 and overlap 50.\<close>

definition ex_libs_parser_error :: libs where
  "ex_libs_parser_error =
     ex_libs\<lparr>from_defaults :=
       (\<lambda>size overlap.
          if size = 1024 \<and> overlap = 50 then Inl (Exception ''ValueError'' ''bad chunking'')
          else Inr (SimpleNodeParser size overlap))\<rparr>"

text \<open>The same libraries with a chunker that accepts nothing but 1024 and 50.\<close>

definition ex_libs_parser_strict :: libs where
  "ex_libs_parser_strict =
     ex_libs\<lparr>from_defaults :=
       (\<lambda>size overlap.
          if size = 1024 \<and> overlap = 50 then Inr (SimpleNodeParser size overlap)
          else Inl (Exception ''ValueError'' ''bad chunking''))\<rparr>"

text \<open>The same libraries with an embedding model that cannot be constructed.\<close>

definition ex_libs_model_error :: libs where
  "ex_libs_model_error =
     ex_libs\<lparr>new_HuggingFaceEmbedding := Inl (Exception ''OSError'' ''no model'')\<rparr>"

text \<open>The same libraries with an embedding model that fails on every text.\<close>

definition ex_model_failing :: HuggingFaceEmbedding where
  "ex_model_failing =
     \<lparr>model_name = ''m'', embed_dim = 2,
      get_text_embedding = (\<lambda>t. Inl (Exception ''RuntimeError'' ''out of memory''))\<rparr>"

section \<open>Properties\<close>

subsection \<open>Running statements\<close>

lemma bind_stmtE:
  assumes "bind_stmt m f w = (r, w')"
  obtains (raised) e where "m w = (Inl e, w')" "r = Inl e"
        | (continued) x w1 where "m w = (Inr x, w1)" "f x w1 = (r, w')"
  using assms by (auto simp: bind_stmt_def split: prod.splits sum.splits)

lemma call_pure_eq [simp]:
  "call_pure c res w = (r, w') \<longleftrightarrow> res = r \<and> w' = w\<lparr>calls := calls w @ [c]\<rparr>"
  by (auto simp: call_pure_def)

lemma call_disk_eq [simp]:
  "call_disk c f w = (r, w') \<longleftrightarrow>
     fst (f (disk w)) = r \<and> w' = w\<lparr>calls := calls w @ [c], disk := snd (f (disk w))\<rparr>"
  by (auto simp: call_disk_def split: prod.splits)

lemma return_stmt_eq [simp]: "return_stmt x w = (r, w') \<longleftrightarrow> r = Inr x \<and> w' = w"
  by (auto simp: return_stmt_def)

lemma logger_log_eq [simp]:
  "logger_log l lvl msg w = (r, w') \<longleftrightarrow> r = Inr () \<and> w' = logged l lvl msg w"
  by (auto simp: logger_log_def logged_def)

lemma logger_log_run: "logger_log l lvl msg w = (Inr (), logged l lvl msg w)"
  by simp

lemma logged_calls [simp]: "calls (logged l lvl msg w) = calls w"
  by (simp add: logged_def logger_log_def write_stream_def split: stream.splits)

lemma logged_disk [simp]: "disk (logged l lvl msg w) = disk w"
  by (simp add: logged_def logger_log_def write_stream_def split: stream.splits)

lemma format_record_cfg:
  "format_record (fmt logging_cfg) t lvl msg = t @ '' - '' @ levelname lvl @ '' - '' @ msg"
  by (simp add: logging_cfg_def basicConfig_def format_record_def)

lemma logged_streams:
  assumes "lvl = INFO \<or> lvl = ERROR"
  shows "stderr (logged l lvl msg w) = stderr w @ [log_line l (tick w) lvl msg]"
    and "stdout (logged l lvl msg w) = stdout w"
    and "tick (logged l lvl msg w) = Suc (tick w)"
  using assms
  by (auto simp: logged_def logger_log_def write_stream_def log_line_def format_record_cfg)
     (auto simp: logging_cfg_def basicConfig_def)

lemma build_eq:
  "build_vector_store_from_documents l s m w =
     (case try_body l s m (try_entry l w) of
        (Inr x, w1) \<Rightarrow> (Inr x, w1)
      | (Inl e, w1) \<Rightarrow>
          if isinstance_Exception e
          then (Inr 1, logged l ERROR (''Error during vector store build: '' @ exc_str e) w1)
          else (Inl e, w1))"
  by (simp add: build_vector_store_from_documents_def bind_stmt_def call_pure_def
      logger_info_def logger_error_def logger_log_run try_except_Exception_def try_entry_def
      return_stmt_def split: prod.splits sum.splits)

lemma try_body_outcome:
  assumes "try_body l s m w = (r, w')"
  shows "\<exists>cs. calls w' = calls w @ cs \<and> prefix cs (call_plan s) \<and> cs \<noteq> []
     \<and> (r = Inr 0 \<or> (\<exists>e. r = Inl e))
     \<and> (r = Inr 0 \<longrightarrow> cs = call_plan s)
     \<and> (length cs \<le> 4 \<longrightarrow> disk w' = disk w \<and> (\<exists>e. r = Inl e \<and> loading_and_parsing l s = Inl e))
     \<and> (4 < length cs \<longrightarrow> (\<exists>nodes. loading_and_parsing l s = Inr nodes))"
  using assms unfolding try_body_def Let_def logger_info_def
  apply (elim bind_stmtE)
  apply (simp_all add: call_plan_def loading_and_parsing_def)
  done

lemma try_body_reader_raises:
  assumes "new_SimpleDirectoryReader l (DOCUMENTS_DIR s) = Inl e"
  shows "try_body l s m w =
     (Inl e, (logged l INFO (''Loading documents from directory: '' @ DOCUMENTS_DIR s) w)
               \<lparr>calls := calls w @ [Call_SimpleDirectoryReader (DOCUMENTS_DIR s)]\<rparr>)"
  using assms
  by (simp add: try_body_def Let_def logger_info_def logger_log_run bind_stmt_def call_pure_def)

subsection \<open>The calls of a run\<close>

lemma new_calls_append: "calls w' = calls w @ cs \<Longrightarrow> new_calls w w' = cs"
  by (simp add: new_calls_def)

lemma try_entry_simps [simp]:
  "calls (try_entry l w) = calls w @ [Call_build_vector_store_from_documents]"
  "disk (try_entry l w) = disk w"
  by (simp_all add: try_entry_def)

lemma distinct_call_plan: "distinct (Call_build_vector_store_from_documents # call_plan s)"
  by (simp add: call_plan_def)

lemma build_outcome:
  assumes run: "build_vector_store_from_documents l s m w = (r, w')"
  shows "\<exists>cs. calls w' = calls w @ Call_build_vector_store_from_documents # cs
     \<and> prefix cs (call_plan s) \<and> cs \<noteq> []
     \<and> (r = Inr 0 \<or> r = Inr 1 \<or> (\<exists>e. r = Inl e \<and> \<not> isinstance_Exception e))
     \<and> (r = Inr 0 \<longrightarrow> cs = call_plan s)
     \<and> (length cs \<le> 4 \<longrightarrow> disk w' = disk w \<and> (\<exists>e. loading_and_parsing l s = Inl e))
     \<and> (4 < length cs \<longrightarrow> (\<exists>nodes. loading_and_parsing l s = Inr nodes))"
proof -
  obtain r1 w1 where tb: "try_body l s m (try_entry l w) = (r1, w1)"
    by (cases "try_body l s m (try_entry l w)")
  from try_body_outcome [OF tb] obtain cs where cs:
    "calls w1 = calls (try_entry l w) @ cs" "prefix cs (call_plan s)" "cs \<noteq> []"
    "r1 = Inr 0 \<or> (\<exists>e. r1 = Inl e)" "r1 = Inr 0 \<longrightarrow> cs = call_plan s"
    "length cs \<le> 4 \<longrightarrow>
       disk w1 = disk (try_entry l w) \<and> (\<exists>e. r1 = Inl e \<and> loading_and_parsing l s = Inl e)"
    "4 < length cs \<longrightarrow> (\<exists>nodes. loading_and_parsing l s = Inr nodes)"
    by blast
  have "calls w' = calls w1" and "disk w' = disk w1" and "r = Inr 0 \<longrightarrow> r1 = Inr 0"
    and "r = Inr 0 \<or> r = Inr 1 \<or> (\<exists>e. r = Inl e \<and> \<not> isinstance_Exception e)"
    using run cs(4) by (auto simp: build_eq tb split: sum.splits if_splits)
  with cs show ?thesis by auto
qed

text \<open>
  C3. Whatever exception of class \<^verbatim>\<open>Exception\<close> the body of the \<^verbatim>\<open>try\<close> raises, the
  driver returns 1 and its last act is one ERROR record carrying the exception's text; the
  class and text of the exception have no influence on the returned value. The driver
  returns 0 or 1 and lets no instance of \<^verbatim>\<open>Exception\<close> escape. No library function is
  called twice: the calls of a run are distinct and follow the program order.
\<close>

theorem driver_catches_every_error:
  assumes run: "build_vector_store_from_documents l s m w = (r, w')"
  shows "(\<forall>c msg w1. try_body l s m (try_entry l w) = (Inl (Exception c msg), w1) \<longrightarrow>
            r = Inr 1
            \<and> w' = logged l ERROR (''Error during vector store build: '' @ msg) w1
            \<and> stderr w' = stderr w1
                @ [log_line l (tick w1) ERROR (''Error during vector store build: '' @ msg)])
       \<and> (case r of Inr v \<Rightarrow> v = 0 \<or> v = 1 | Inl e \<Rightarrow> \<not> isinstance_Exception e)
       \<and> prefix (new_calls w w') (Call_build_vector_store_from_documents # call_plan s)
       \<and> distinct (new_calls w w')"
proof (intro conjI allI impI)
  fix c msg w1
  assume tb: "try_body l s m (try_entry l w) = (Inl (Exception c msg), w1)"
  with run show "r = Inr 1"
    and w': "w' = logged l ERROR (''Error during vector store build: '' @ msg) w1"
    by (simp_all add: build_eq)
  show "stderr w' = stderr w1
      @ [log_line l (tick w1) ERROR (''Error during vector store build: '' @ msg)]"
    unfolding w' by (simp add: logged_streams)
next
  from build_outcome [OF run]
  show "case r of Inr v \<Rightarrow> v = 0 \<or> v = 1 | Inl e \<Rightarrow> \<not> isinstance_Exception e"
    by (auto split: sum.splits)
next
  from build_outcome [OF run] obtain cs where
    cs: "calls w' = calls w @ Call_build_vector_store_from_documents # cs"
      "prefix cs (call_plan s)"
    by blast
  have nc: "new_calls w w' = Call_build_vector_store_from_documents # cs"
    using cs(1) by (rule new_calls_append)
  show p: "prefix (new_calls w w') (Call_build_vector_store_from_documents # call_plan s)"
    using cs(2) by (simp add: nc)
  show "distinct (new_calls w w')"
    using p distinct_call_plan [of s] by (metis distinct_append prefix_def)
qed

lemmas ex_defs =
  ex_libs_def ex_settings_def ex_model_def ex_model_failing_def ex_fs_def ex_world_def
  spec_new_SimpleDirectoryReader_def spec_load_data_def spec_new_PersistentClient_def
  spec_get_or_create_collection_def spec_new_ChromaVectorStore_def
  spec_StorageContext_from_defaults_def spec_new_VectorStoreIndex_def collection_add_def
  node_of_document_def

lemmas run_defs =
  try_body_def Let_def logger_info_def logger_log_run bind_stmt_def call_pure_def
  call_disk_def return_stmt_def try_entry_def

lemma ex_embedding_fails:
  "fst (try_body ex_libs ex_settings ex_model_failing (try_entry ex_libs ex_world))
    = Inl (Exception ''RuntimeError'' ''out of memory'')"
  by (simp add: run_defs ex_defs)

lemma ex_interrupted:
  "fst (build_vector_store_from_documents ex_libs_interrupted ex_settings ex_model ex_world)
    = Inl (BaseException ''KeyboardInterrupt'' [])"
  by (simp add: build_eq run_defs ex_defs ex_libs_interrupted_def)

theorem driver_catches_every_error_witness:
  "fst (try_body ex_libs ex_settings ex_model_failing (try_entry ex_libs ex_world))
     = Inl (Exception ''RuntimeError'' ''out of memory'')
   \<and> fst (build_vector_store_from_documents ex_libs ex_settings ex_model_failing ex_world)
     = Inr 1
   \<and> last (stderr (snd
       (build_vector_store_from_documents ex_libs ex_settings ex_model_failing ex_world)))
     = ''T - ERROR - Error during vector store build: out of memory''
   \<and> distinct (new_calls ex_world (snd
       (build_vector_store_from_documents ex_libs ex_settings ex_model_failing ex_world)))
   \<and> fst (build_vector_store_from_documents ex_libs_interrupted ex_settings ex_model ex_world)
     = Inl (BaseException ''KeyboardInterrupt'' [])
   \<and> \<not> isinstance_Exception (BaseException ''KeyboardInterrupt'' [])"
proof -
  let ?run = "build_vector_store_from_documents ex_libs ex_settings ex_model_failing ex_world"
  let ?tb = "try_body ex_libs ex_settings ex_model_failing (try_entry ex_libs ex_world)"
  have run: "?run = (fst ?run, snd ?run)" by simp
  have tb: "?tb = (Inl (Exception ''RuntimeError'' ''out of memory''), snd ?tb)"
    using ex_embedding_fails by (simp add: prod_eq_iff)
  let ?int = "build_vector_store_from_documents ex_libs_interrupted ex_settings ex_model ex_world"
  have int: "?int = (Inl (BaseException ''KeyboardInterrupt'' []), snd ?int)"
    using ex_interrupted by (simp add: prod_eq_iff)
  from driver_catches_every_error [OF run] tb
  have "fst ?run = Inr 1"
    and "stderr (snd ?run) = stderr (snd ?tb)
      @ [log_line ex_libs (tick (snd ?tb)) ERROR
           (''Error during vector store build: '' @ ''out of memory'')]"
    and "distinct (new_calls ex_world (snd ?run))"
    by blast+
  moreover from driver_catches_every_error [OF int]
  have "\<not> isinstance_Exception (BaseException ''KeyboardInterrupt'' [])" by simp
  ultimately show ?thesis
    using ex_embedding_fails ex_interrupted by (simp add: log_line_def ex_libs_def)
qed

lemma call_plan_prefixes:
  assumes "prefix cs (call_plan s)"
  shows "cs \<in> set (prefixes (call_plan s))"
  using assms by simp

lemma ex_success:
  "fst (build_vector_store_from_documents ex_libs ex_settings ex_model ex_world) = Inr 0"
  by (simp add: build_eq run_defs ex_defs)

lemma ex_success_calls:
  "new_calls ex_world (snd (build_vector_store_from_documents ex_libs ex_settings ex_model ex_world))
     = Call_build_vector_store_from_documents # call_plan ex_settings"
proof -
  let ?run = "build_vector_store_from_documents ex_libs ex_settings ex_model ex_world"
  have run: "?run = (Inr 0, snd ?run)" using ex_success by (simp add: prod_eq_iff)
  from build_outcome [OF run] show ?thesis by (auto intro: new_calls_append)
qed

text \<open>
  C10. In every run of the driver the persistent client is constructed only when loading
  and parsing have both returned: the calls that precede it are the entry of the driver and
  the four calls of lines 39-45, in that order. When loading or parsing raises, the disk is
  left exactly as it was and the client is never constructed.
\<close>

theorem store_opened_only_after_parsing:
  assumes run: "build_vector_store_from_documents l s m w = (r, w')"
  shows "((\<exists>p. Call_PersistentClient p \<in> set (new_calls w w')) \<longrightarrow>
            (\<exists>nodes. loading_and_parsing l s = Inr nodes)
            \<and> takeWhile (\<lambda>c. c \<noteq> Call_PersistentClient (VECTOR_STORE_DIR s)) (new_calls w w')
                = [Call_build_vector_store_from_documents,
                   Call_SimpleDirectoryReader (DOCUMENTS_DIR s), Call_load_data,
                   Call_from_defaults 1024 50, Call_get_nodes_from_documents])
       \<and> ((\<exists>e. loading_and_parsing l s = Inl e) \<longrightarrow>
            disk w' = disk w \<and> (\<forall>p. Call_PersistentClient p \<notin> set (new_calls w w')))"
proof -
  from build_outcome [OF run] obtain cs where
    cs: "calls w' = calls w @ Call_build_vector_store_from_documents # cs"
      "prefix cs (call_plan s)"
      "length cs \<le> 4 \<longrightarrow> disk w' = disk w \<and> (\<exists>e. loading_and_parsing l s = Inl e)"
      "4 < length cs \<longrightarrow> (\<exists>nodes. loading_and_parsing l s = Inr nodes)"
    by blast
  have nc: "new_calls w w' = Call_build_vector_store_from_documents # cs"
    using cs(1) by (rule new_calls_append)
  have pre: "cs \<in> set (prefixes (call_plan s))"
    using cs(2) by (rule call_plan_prefixes)
  have early: "length cs \<le> 4 \<Longrightarrow> Call_PersistentClient p \<notin> set cs" for p
    using pre by (auto simp: call_plan_def)
  have late: "4 < length cs \<Longrightarrow>
      takeWhile (\<lambda>c. c \<noteq> Call_PersistentClient (VECTOR_STORE_DIR s)) cs
        = [Call_SimpleDirectoryReader (DOCUMENTS_DIR s), Call_load_data,
           Call_from_defaults 1024 50, Call_get_nodes_from_documents]"
    using pre by (auto simp: call_plan_def)
  show ?thesis
  proof (intro conjI impI)
    assume "\<exists>p. Call_PersistentClient p \<in> set (new_calls w w')"
    then have long: "4 < length cs" using early by (fastforce simp: nc)
    with cs(4) show "\<exists>nodes. loading_and_parsing l s = Inr nodes" by simp
    from late [OF long]
    show "takeWhile (\<lambda>c. c \<noteq> Call_PersistentClient (VECTOR_STORE_DIR s)) (new_calls w w')
        = [Call_build_vector_store_from_documents,
           Call_SimpleDirectoryReader (DOCUMENTS_DIR s), Call_load_data,
           Call_from_defaults 1024 50, Call_get_nodes_from_documents]"
      by (simp add: nc)
  next
    assume "\<exists>e. loading_and_parsing l s = Inl e"
    with cs(4) have short: "length cs \<le> 4" by fastforce
    with cs(3) show "disk w' = disk w" by simp
    from early [OF short] show "\<forall>p. Call_PersistentClient p \<notin> set (new_calls w w')"
      by (simp add: nc)
  qed
qed

lemma ex_load_error:
  "loading_and_parsing ex_libs_load_error ex_settings
     = Inl (Exception ''OSError'' (''a'' @ [CHR 0x0A] @ ''b''))"
  by (simp add: loading_and_parsing_def ex_libs_load_error_def ex_defs)

theorem store_opened_only_after_parsing_witness:
  "Call_PersistentClient ''db'' \<in> set (new_calls ex_world
      (snd (build_vector_store_from_documents ex_libs ex_settings ex_model ex_world)))
   \<and> loading_and_parsing ex_libs ex_settings
       = Inr [\<lparr>node_text = ''hi'', node_metadata = []\<rparr>]
   \<and> loading_and_parsing ex_libs_load_error ex_settings
       = Inl (Exception ''OSError'' (''a'' @ [CHR 0x0A] @ ''b''))
   \<and> disk (snd (build_vector_store_from_documents ex_libs_load_error ex_settings ex_model
        ex_world)) = Map.empty
   \<and> Call_PersistentClient ''db'' \<notin> set (new_calls ex_world
      (snd (build_vector_store_from_documents ex_libs_load_error ex_settings ex_model ex_world)))"
proof -
  let ?ok = "build_vector_store_from_documents ex_libs ex_settings ex_model ex_world"
  let ?bad = "build_vector_store_from_documents ex_libs_load_error ex_settings ex_model ex_world"
  have ok: "?ok = (fst ?ok, snd ?ok)" and bad: "?bad = (fst ?bad, snd ?bad)" by simp_all
  have opened: "Call_PersistentClient ''db'' \<in> set (new_calls ex_world (snd ?ok))"
    unfolding ex_success_calls by (simp add: call_plan_def ex_settings_def)
  with store_opened_only_after_parsing [OF ok]
  have "\<exists>nodes. loading_and_parsing ex_libs ex_settings = Inr nodes" by blast
  moreover have "loading_and_parsing ex_libs ex_settings
       = Inr [\<lparr>node_text = ''hi'', node_metadata = []\<rparr>]"
    by (simp add: loading_and_parsing_def ex_defs)
  moreover from store_opened_only_after_parsing [OF bad] ex_load_error
  have "disk (snd ?bad) = disk ex_world"
    and "Call_PersistentClient ''db'' \<notin> set (new_calls ex_world (snd ?bad))"
    by blast+
  ultimately show ?thesis using opened ex_load_error by (simp add: ex_world_def)
qed

subsection \<open>A loader that raises\<close>

lemma new_stderr_append: "stderr w' = stderr w @ ls \<Longrightarrow> new_stderr w w' = ls"
  by (simp add: new_stderr_def)

lemma try_entry_streams:
  "stderr (try_entry l w)
     = stderr w @ [log_line l (tick w) INFO ''Starting vector store ingestion process.'']"
  "stdout (try_entry l w) = stdout w"
  "tick (try_entry l w) = Suc (tick w)"
  by (simp_all add: try_entry_def logged_streams)

lemma build_reader_raises:
  assumes raises: "new_SimpleDirectoryReader l (DOCUMENTS_DIR s) = Inl (Exception c msg)"
    and run: "build_vector_store_from_documents l s m w = (r, w')"
  shows "r = Inr 1"
    and "disk w' = disk w"
    and "stdout w' = stdout w"
    and "new_calls w w'
       = [Call_build_vector_store_from_documents, Call_SimpleDirectoryReader (DOCUMENTS_DIR s)]"
    and "new_stderr w w'
       = [log_line l (tick w) INFO ''Starting vector store ingestion process.'',
          log_line l (Suc (tick w)) INFO
            (''Loading documents from directory: '' @ DOCUMENTS_DIR s),
          log_line l (Suc (Suc (tick w))) ERROR (''Error during vector store build: '' @ msg)]"
proof -
  let ?w1 = "(logged l INFO (''Loading documents from directory: '' @ DOCUMENTS_DIR s)
                (try_entry l w))
             \<lparr>calls := calls (try_entry l w) @ [Call_SimpleDirectoryReader (DOCUMENTS_DIR s)]\<rparr>"
  have tb: "try_body l s m (try_entry l w) = (Inl (Exception c msg), ?w1)"
    by (rule try_body_reader_raises [OF raises])
  from run have r: "r = Inr 1"
    and w': "w' = logged l ERROR (''Error during vector store build: '' @ msg) ?w1"
    by (simp_all add: build_eq tb)
  show "r = Inr 1" by (rule r)
  show "disk w' = disk w" by (simp add: w')
  show "stdout w' = stdout w" by (simp add: w' logged_streams try_entry_streams)
  show "new_calls w w'
       = [Call_build_vector_store_from_documents, Call_SimpleDirectoryReader (DOCUMENTS_DIR s)]"
    by (rule new_calls_append) (simp add: w')
  show "new_stderr w w'
       = [log_line l (tick w) INFO ''Starting vector store ingestion process.'',
          log_line l (Suc (tick w)) INFO
            (''Loading documents from directory: '' @ DOCUMENTS_DIR s),
          log_line l (Suc (Suc (tick w))) ERROR (''Error during vector store build: '' @ msg)]"
    by (rule new_stderr_append) (simp add: w' logged_streams try_entry_streams)
qed

lemma with_spec_loader_simps [simp]:
  "new_SimpleDirectoryReader (with_spec_loader fs l) = spec_new_SimpleDirectoryReader fs"
  "load_data (with_spec_loader fs l) = spec_load_data fs"
  "asctime (with_spec_loader fs l) = asctime l"
  by (simp_all add: with_spec_loader_def)

lemma log_line_with_spec_loader [simp]: "log_line (with_spec_loader fs l) = log_line l"
  by (simp add: fun_eq_iff log_line_def)

text \<open>
  C4. With the loader of the specification: when the configured documents directory does
  not exist, the driver returns 1, writes one ERROR record (after its two INFO records),
  leaves every store on the disk as it was and never constructs the persistent client: its
  only library call is the constructor of the loader.
\<close>

theorem missing_directory_returns_1:
  assumes missing: "fs (DOCUMENTS_DIR s) = None"
    and run: "build_vector_store_from_documents (with_spec_loader fs l) s m w = (r, w')"
  shows "r = Inr 1
       \<and> disk w' = disk w
       \<and> (\<forall>p. Call_PersistentClient p \<notin> set (new_calls w w'))
       \<and> new_calls w w'
           = [Call_build_vector_store_from_documents, Call_SimpleDirectoryReader (DOCUMENTS_DIR s)]
       \<and> (\<exists>msg. new_stderr w w'
           = [log_line l (tick w) INFO ''Starting vector store ingestion process.'',
              log_line l (Suc (tick w)) INFO
                (''Loading documents from directory: '' @ DOCUMENTS_DIR s),
              log_line l (Suc (Suc (tick w))) ERROR
                (''Error during vector store build: '' @ msg)])"
proof -
  have raises: "new_SimpleDirectoryReader (with_spec_loader fs l) (DOCUMENTS_DIR s)
      = Inl (Exception ''ValueError'' (''Directory '' @ DOCUMENTS_DIR s @ '' does not exist.''))"
    using missing by (simp add: spec_new_SimpleDirectoryReader_def)
  note facts = build_reader_raises [OF raises run, unfolded log_line_with_spec_loader]
  have "\<forall>p. Call_PersistentClient p \<notin> set (new_calls w w')"
    by (simp add: facts(4))
  with facts(1,2,4,5) show ?thesis by blast
qed

theorem missing_directory_returns_1_witness:
  "ex_fs_other_dir (DOCUMENTS_DIR ex_settings) = None
   \<and> fst (build_vector_store_from_documents (with_spec_loader ex_fs_other_dir ex_libs)
        ex_settings ex_model ex_world) = Inr 1
   \<and> disk (snd (build_vector_store_from_documents (with_spec_loader ex_fs_other_dir ex_libs)
        ex_settings ex_model ex_world)) = Map.empty
   \<and> new_calls ex_world (snd (build_vector_store_from_documents
        (with_spec_loader ex_fs_other_dir ex_libs) ex_settings ex_model ex_world))
       = [Call_build_vector_store_from_documents, Call_SimpleDirectoryReader ''docs'']"
proof -
  let ?run = "build_vector_store_from_documents (with_spec_loader ex_fs_other_dir ex_libs)
        ex_settings ex_model ex_world"
  have run: "?run = (fst ?run, snd ?run)" by simp
  have missing: "ex_fs_other_dir (DOCUMENTS_DIR ex_settings) = None"
    by (simp add: ex_fs_other_dir_def ex_settings_def)
  from missing_directory_returns_1 [OF missing run]
  show ?thesis using missing by (simp add: ex_world_def ex_settings_def)
qed

text \<open>
  C2, as the code behaves. With the loader of the specification: for an empty documents
  directory the loader raises, so the driver loads no document, produces no node, never
  constructs the index, writes no record (the disk is unchanged), raises nothing to its
  caller, writes one ERROR record and returns 1.
\<close>

theorem empty_directory_returns_1:
  assumes empty: "fs (DOCUMENTS_DIR s) = Some []"
    and run: "build_vector_store_from_documents (with_spec_loader fs l) s m w = (r, w')"
  shows "r = Inr 1
       \<and> disk w' = disk w
       \<and> new_calls w w'
           = [Call_build_vector_store_from_documents, Call_SimpleDirectoryReader (DOCUMENTS_DIR s)]
       \<and> (\<exists>msg. new_stderr w w'
           = [log_line l (tick w) INFO ''Starting vector store ingestion process.'',
              log_line l (Suc (tick w)) INFO
                (''Loading documents from directory: '' @ DOCUMENTS_DIR s),
              log_line l (Suc (Suc (tick w))) ERROR
                (''Error during vector store build: '' @ msg)])"
proof -
  have raises: "new_SimpleDirectoryReader (with_spec_loader fs l) (DOCUMENTS_DIR s)
      = Inl (Exception ''ValueError'' (''No files found in '' @ DOCUMENTS_DIR s @ ''.''))"
    using empty by (simp add: spec_new_SimpleDirectoryReader_def)
  from build_reader_raises(1,2,4,5) [OF raises run, unfolded log_line_with_spec_loader]
  show ?thesis by blast
qed

theorem empty_directory_returns_1_witness:
  "ex_fs_empty_dir (DOCUMENTS_DIR ex_settings) = Some []
   \<and> fst (build_vector_store_from_documents (with_spec_loader ex_fs_empty_dir ex_libs)
        ex_settings ex_model ex_world) = Inr 1
   \<and> disk (snd (build_vector_store_from_documents (with_spec_loader ex_fs_empty_dir ex_libs)
        ex_settings ex_model ex_world)) = Map.empty"
proof -
  let ?run = "build_vector_store_from_documents (with_spec_loader ex_fs_empty_dir ex_libs)
        ex_settings ex_model ex_world"
  have run: "?run = (fst ?run, snd ?run)" by simp
  have empty: "ex_fs_empty_dir (DOCUMENTS_DIR ex_settings) = Some []"
    by (simp add: ex_fs_empty_dir_def ex_settings_def)
  from empty_directory_returns_1 [OF empty run]
  show ?thesis using empty by (simp add: ex_world_def)
qed

text \<open>
  C2, as the specification states it, fails: an empty documents directory does not give
  the return value 0.
\<close>

theorem empty_directory_counterexample:
  "ex_fs_empty_dir (DOCUMENTS_DIR ex_settings) = Some []
   \<and> fst (build_vector_store_from_documents (with_spec_loader ex_fs_empty_dir ex_libs)
        ex_settings ex_model ex_world) \<noteq> Inr 0"
  by (simp add: build_eq run_defs ex_defs ex_fs_empty_dir_def)

text \<open>
  C1. The last line of the script calls the driver and drops its result. In a process
  whose loader raises, the driver returns 1 and the exit status of the script is 0.
\<close>

theorem exit_code_ignores_driver_result:
  "(\<forall>w. fst (build_vector_store_from_documents ex_libs_load_error ex_settings ex_model w)
       = Inr 1)
   \<and> fst (run_script ex_libs_load_error ex_world) = Some 0"
  by (simp add: run_script_def module_body_def exit_code_def build_eq run_defs ex_defs
      ex_libs_load_error_def split: prod.splits)

subsection \<open>The calls of the whole script\<close>

lemma call_plan_no_model_load:
  assumes "prefix cs (call_plan s)"
  shows "Call_HuggingFaceEmbedding \<notin> set cs"
    and "Call_DocIngestionSettings \<notin> set cs"
  using set_mono_prefix [OF assms] by (auto simp: call_plan_def)

lemma module_body_calls:
  assumes run: "module_body l is_main w = (r, w')"
  shows "(new_calls w w' = [Call_DocIngestionSettings]
            \<and> (\<exists>e. new_DocIngestionSettings l = Inl e))
       \<or> (new_calls w w' = [Call_DocIngestionSettings, Call_HuggingFaceEmbedding]
            \<and> ((\<exists>e. new_HuggingFaceEmbedding l = Inl e) \<or> \<not> is_main))
       \<or> (\<exists>s m cs. is_main \<and> new_DocIngestionSettings l = Inr s
            \<and> new_HuggingFaceEmbedding l = Inr m
            \<and> new_calls w w'
                = Call_DocIngestionSettings # Call_HuggingFaceEmbedding
                  # Call_build_vector_store_from_documents # cs
            \<and> prefix cs (call_plan s) \<and> cs \<noteq> [])"
proof (cases "new_DocIngestionSettings l")
  case (Inl e)
  with run have "w' = w\<lparr>calls := calls w @ [Call_DocIngestionSettings]\<rparr>"
    by (simp add: module_body_def bind_stmt_def call_pure_def)
  then show ?thesis using Inl by (simp add: new_calls_def)
next
  case settings: (Inr s)
  let ?w1 = "logged l INFO ''Loading HuggingFace embedding model...''
               (w\<lparr>calls := calls w @ [Call_DocIngestionSettings]\<rparr>)"
  let ?w2 = "?w1\<lparr>calls := calls ?w1 @ [Call_HuggingFaceEmbedding]\<rparr>"
  show ?thesis
  proof (cases "new_HuggingFaceEmbedding l")
    case (Inl e)
    with run settings have "w' = ?w2"
      by (simp add: module_body_def bind_stmt_def call_pure_def logger_info_def logger_log_run)
    then show ?thesis using Inl by (simp add: new_calls_def)
  next
    case model: (Inr m)
    show ?thesis
    proof (cases is_main)
      case False
      with run settings model have "w' = ?w2"
        by (simp add: module_body_def bind_stmt_def call_pure_def logger_info_def
            logger_log_run return_stmt_def)
      then show ?thesis using False by (simp add: new_calls_def)
    next
      case True
      obtain r2 w3 where drv: "build_vector_store_from_documents l s m ?w2 = (r2, w3)"
        by (cases "build_vector_store_from_documents l s m ?w2")
      with run settings model True have w': "w' = w3"
        by (auto simp: module_body_def bind_stmt_def call_pure_def logger_info_def
            logger_log_run return_stmt_def split: sum.splits)
      from build_outcome [OF drv] obtain cs where
        "calls w3 = calls ?w2 @ Call_build_vector_store_from_documents # cs"
        "prefix cs (call_plan s)" "cs \<noteq> []"
        by blast
      then have "new_calls w w' = Call_DocIngestionSettings # Call_HuggingFaceEmbedding
                  # Call_build_vector_store_from_documents # cs
                \<and> prefix cs (call_plan s) \<and> cs \<noteq> []"
        by (simp add: w' new_calls_def)
      with True settings model show ?thesis by blast
    qed
  qed
qed

subsection \<open>Relations that every step of the script keeps\<close>

lemma preserves_bind:
  assumes trans: "\<And>a b c. R a b \<Longrightarrow> R b c \<Longrightarrow> R a c"
    and m: "preserves R m" and f: "\<And>x. preserves R (f x)"
  shows "preserves R (bind_stmt m f)"
  unfolding preserves_def
proof
  fix w
  obtain r w1 where mw: "m w = (r, w1)" by (cases "m w")
  have step: "R w w1" using m mw by (auto simp: preserves_def dest: spec [of _ w])
  show "R w (snd (bind_stmt m f w))"
  proof (cases r)
    case (Inl e)
    then show ?thesis using mw step by (simp add: bind_stmt_def)
  next
    case (Inr x)
    have "R w1 (snd (f x w1))" using f [of x] by (simp add: preserves_def)
    then show ?thesis using Inr mw step trans by (auto simp: bind_stmt_def)
  qed
qed

lemma preserves_try_except:
  assumes trans: "\<And>a b c. R a b \<Longrightarrow> R b c \<Longrightarrow> R a c"
    and m: "preserves R m" and h: "\<And>e. preserves R (h e)"
  shows "preserves R (try_except_Exception m h)"
  unfolding preserves_def
proof
  fix w
  obtain r w1 where mw: "m w = (r, w1)" by (cases "m w")
  have step: "R w w1" using m mw by (auto simp: preserves_def dest: spec [of _ w])
  show "R w (snd (try_except_Exception m h w))"
  proof (cases r)
    case (Inr x)
    then show ?thesis using mw step by (simp add: try_except_Exception_def)
  next
    case (Inl e)
    have "R w1 (snd (h e w1))" using h [of e] by (simp add: preserves_def)
    then show ?thesis using Inl mw step trans by (auto simp: try_except_Exception_def)
  qed
qed

lemma preserves_return: "(\<And>w. R w w) \<Longrightarrow> preserves R (return_stmt x)"
  by (simp add: preserves_def return_stmt_def)

lemma preserves_call_pure:
  "(\<And>w cs. R w (w\<lparr>calls := cs\<rparr>)) \<Longrightarrow> preserves R (call_pure c r)"
  by (simp add: preserves_def call_pure_def)

lemma preserves_call_disk:
  assumes "\<And>(w::world) cs. R w (w\<lparr>calls := cs, disk := snd (f (disk w))\<rparr>)"
  shows "preserves R (call_disk c f)"
  unfolding preserves_def
proof
  fix w :: world
  obtain r d where fd: "f (disk w) = (r, d)" by (cases "f (disk w)")
  from assms [of w "calls w @ [c]"] show "R w (snd (call_disk c f w))"
    by (simp add: call_disk_def fd)
qed

lemma preserves_logger_info:
  "(\<And>w. R w (logged l INFO msg w)) \<Longrightarrow> preserves R (logger_info l msg)"
  by (simp add: preserves_def logger_info_def logged_def)

lemma preserves_logger_error:
  "(\<And>w. R w (logged l ERROR msg w)) \<Longrightarrow> preserves R (logger_error l msg)"
  by (simp add: preserves_def logger_error_def logged_def)

lemma try_body_preserves:
  assumes refl: "\<And>w. R w w"
    and trans: "\<And>a b c. R a b \<Longrightarrow> R b c \<Longrightarrow> R a c"
    and calls: "\<And>w cs. R w (w\<lparr>calls := cs\<rparr>)"
    and info: "\<And>w msg. R w (logged l INFO msg w)"
    and client: "\<And>w cs p. R w (w\<lparr>calls := cs, disk := snd (new_PersistentClient l p (disk w))\<rparr>)"
    and coll: "\<And>w cs db n.
       R w (w\<lparr>calls := cs, disk := snd (get_or_create_collection l db n (disk w))\<rparr>)"
    and index: "\<And>w cs ns sc vs.
       R w (w\<lparr>calls := cs, disk := snd (new_VectorStoreIndex l ns sc vs m (disk w))\<rparr>)"
  shows "preserves R (try_body l s m)"
proof -
  note bnd = preserves_bind [of R, OF trans]
  have ret: "preserves R (return_stmt x)" for x :: int
    by (rule preserves_return) (rule refl)
  have pure: "preserves R (call_pure c r)" for c and r :: "py_exc + 'x"
    by (rule preserves_call_pure) (rule calls)
  have inf: "preserves R (logger_info l msg)" for msg
    by (rule preserves_logger_info) (rule info)
  have cl: "preserves R (call_disk c (new_PersistentClient l p))" for c p
    by (rule preserves_call_disk) (rule client)
  have co: "preserves R (call_disk c (get_or_create_collection l db n))" for c db n
    by (rule preserves_call_disk) (rule coll)
  have ix: "preserves R (call_disk c (new_VectorStoreIndex l ns sc vs m))" for c ns sc vs
    by (rule preserves_call_disk) (rule index)
  show ?thesis
    unfolding try_body_def Let_def
    by (rule bnd ret pure inf cl co ix | assumption)+
qed


lemma build_preserves:
  assumes refl: "\<And>w. R w w"
    and trans: "\<And>a b c. R a b \<Longrightarrow> R b c \<Longrightarrow> R a c"
    and calls: "\<And>w cs. R w (w\<lparr>calls := cs\<rparr>)"
    and info: "\<And>w msg. R w (logged l INFO msg w)"
    and error: "\<And>w msg. R w (logged l ERROR msg w)"
    and client: "\<And>w cs p. R w (w\<lparr>calls := cs, disk := snd (new_PersistentClient l p (disk w))\<rparr>)"
    and coll: "\<And>w cs db n.
       R w (w\<lparr>calls := cs, disk := snd (get_or_create_collection l db n (disk w))\<rparr>)"
    and index: "\<And>w cs ns sc vs.
       R w (w\<lparr>calls := cs, disk := snd (new_VectorStoreIndex l ns sc vs m (disk w))\<rparr>)"
  shows "preserves R (build_vector_store_from_documents l s m)"
proof -
  note bnd = preserves_bind [of R, OF trans]
  note exc = preserves_try_except [of R, OF trans]
  have tb: "preserves R (try_body l s m)"
    by (rule try_body_preserves [of R, OF refl trans calls info client coll index])
  have ret: "preserves R (return_stmt x)" for x :: int
    by (rule preserves_return) (rule refl)
  have pure: "preserves R (call_pure c r)" for c and r :: "py_exc + unit"
    by (rule preserves_call_pure) (rule calls)
  have inf: "preserves R (logger_info l msg)" for msg
    by (rule preserves_logger_info) (rule info)
  have err: "preserves R (logger_error l msg)" for msg
    by (rule preserves_logger_error) (rule error)
  show ?thesis
    unfolding build_vector_store_from_documents_def
    by (rule bnd exc tb ret pure inf err | assumption)+
qed

lemma module_body_preserves:
  assumes refl: "\<And>w. R w w"
    and trans: "\<And>a b c. R a b \<Longrightarrow> R b c \<Longrightarrow> R a c"
    and calls: "\<And>w cs. R w (w\<lparr>calls := cs\<rparr>)"
    and info: "\<And>w msg. R w (logged l INFO msg w)"
    and error: "\<And>w msg. R w (logged l ERROR msg w)"
    and client: "\<And>w cs p m.
       R w (w\<lparr>calls := cs, disk := snd (new_PersistentClient l p (disk w))\<rparr>)"
    and coll: "\<And>w cs db n.
       R w (w\<lparr>calls := cs, disk := snd (get_or_create_collection l db n (disk w))\<rparr>)"
    and index: "\<And>w cs ns sc vs m.
       R w (w\<lparr>calls := cs, disk := snd (new_VectorStoreIndex l ns sc vs m (disk w))\<rparr>)"
  shows "preserves R (module_body l is_main)"
proof -
  note bnd = preserves_bind [of R, OF trans]
  have drv: "preserves R (build_vector_store_from_documents l s m)" for s m
    by (rule build_preserves [of R, OF refl trans calls info error client coll index])
  have ret: "preserves R (return_stmt x)" for x :: unit
    by (rule preserves_return) (rule refl)
  have pure: "preserves R (call_pure c r)" for c and r :: "py_exc + 'x"
    by (rule preserves_call_pure) (rule calls)
  have inf: "preserves R (logger_info l msg)" for msg
    by (rule preserves_logger_info) (rule info)
  have last: "preserves R (if is_main
      then bind_stmt (build_vector_store_from_documents l s m) (\<lambda>_. return_stmt ())
      else return_stmt ())" for s m
    by (cases is_main) (simp_all, (rule bnd drv ret | assumption)+)
  show ?thesis
    unfolding module_body_def
    by (rule bnd pure inf last | assumption)+
qed

subsection \<open>The streams\<close>

lemma logs_only_refl: "logs_only l w w"
  by (simp add: logs_only_def)

lemma logs_only_trans:
  assumes "logs_only l a b" and "logs_only l b c"
  shows "logs_only l a c"
proof -
  from assms obtain ls1 ls2 where
    "stdout b = stdout a" "stderr b = stderr a @ ls1"
    "\<forall>x\<in>set ls1. \<exists>k lvl msg. (lvl = INFO \<or> lvl = ERROR) \<and> x = log_line l k lvl msg"
    "stdout c = stdout b" "stderr c = stderr b @ ls2"
    "\<forall>x\<in>set ls2. \<exists>k lvl msg. (lvl = INFO \<or> lvl = ERROR) \<and> x = log_line l k lvl msg"
    unfolding logs_only_def by blast
  then have "stdout c = stdout a" "stderr c = stderr a @ (ls1 @ ls2)"
    "\<forall>x\<in>set (ls1 @ ls2). \<exists>k lvl msg. (lvl = INFO \<or> lvl = ERROR) \<and> x = log_line l k lvl msg"
    by auto
  then show ?thesis unfolding logs_only_def by blast
qed

lemma logs_only_calls: "logs_only l w (w\<lparr>calls := cs\<rparr>)"
  by (simp add: logs_only_def)

lemma logs_only_calls_disk: "logs_only l w (w\<lparr>calls := cs, disk := d\<rparr>)"
  by (simp add: logs_only_def)

lemma logs_only_logged:
  assumes "lvl = INFO \<or> lvl = ERROR"
  shows "logs_only l w (logged l lvl msg w)"
proof -
  have "stderr (logged l lvl msg w) = stderr w @ [log_line l (tick w) lvl msg]"
    and "stdout (logged l lvl msg w) = stdout w"
    using assms by (simp_all add: logged_streams)
  moreover have "\<forall>x\<in>set [log_line l (tick w) lvl msg].
      \<exists>k lvl msg. (lvl = INFO \<or> lvl = ERROR) \<and> x = log_line l k lvl msg"
    using assms by auto
  ultimately show ?thesis unfolding logs_only_def by blast
qed

lemma single_line_log_line:
  assumes "single_line (asctime l k)" and "single_line msg"
  shows "single_line (log_line l k lvl msg)"
  using assms by (cases lvl) (simp_all add: single_line_def log_line_def)

text \<open>
  C9, as the code behaves. Every record the script logs, at import and in the driver, is
  the text "timestamp - level - message" of level INFO or ERROR, and it is written to the
  standard error stream, the stream of a handler that \<^verbatim>\<open>basicConfig\<close> installs when
  no stream is given; nothing is written to the standard output. The text is a single line
  when the timestamp and the message contain no line break.
\<close>

theorem log_records_go_to_stderr:
  "logs_only l w (snd (module_body l is_main w))
   \<and> logs_only l w (snd (build_vector_store_from_documents l s m w))
   \<and> handler_stream logging_cfg = Stderr
   \<and> (\<forall>k lvl msg. format_record (fmt logging_cfg) (asctime l k) lvl msg = log_line l k lvl msg)
   \<and> (\<forall>k lvl msg. single_line (asctime l k) \<and> single_line msg \<longrightarrow>
         single_line (log_line l k lvl msg))"
proof -
  have "preserves (logs_only l) (module_body l is_main)"
    by (rule module_body_preserves [of "logs_only l"])
       (rule logs_only_refl logs_only_calls logs_only_calls_disk logs_only_logged
          | erule (1) logs_only_trans | simp)+
  moreover have "preserves (logs_only l) (build_vector_store_from_documents l s m)"
    by (rule build_preserves [of "logs_only l"])
       (rule logs_only_refl logs_only_calls logs_only_calls_disk logs_only_logged
          | erule (1) logs_only_trans | simp)+
  moreover have "handler_stream logging_cfg = Stderr"
    by (simp add: logging_cfg_def basicConfig_def)
  moreover have "format_record (fmt logging_cfg) (asctime l k) lvl msg = log_line l k lvl msg"
    for k lvl msg
    by (simp add: format_record_cfg log_line_def)
  moreover note single_line_log_line [of l]
  ultimately show ?thesis unfolding preserves_def by blast
qed


lemma ex_load_error_streams:
  "new_stderr ex_world
      (snd (build_vector_store_from_documents ex_libs_load_error ex_settings ex_model ex_world))
     = [''T - INFO - Starting vector store ingestion process.'',
        ''T - INFO - Loading documents from directory: docs'',
        ''T - ERROR - Error during vector store build: a'' @ [CHR 0x0A] @ ''b'']"
  "stdout (snd (build_vector_store_from_documents ex_libs_load_error ex_settings ex_model
      ex_world)) = []"
proof -
  let ?run = "build_vector_store_from_documents ex_libs_load_error ex_settings ex_model ex_world"
  have run: "?run = (fst ?run, snd ?run)" by simp
  have raises: "new_SimpleDirectoryReader ex_libs_load_error (DOCUMENTS_DIR ex_settings)
      = Inl (Exception ''OSError'' (''a'' @ [CHR 0x0A] @ ''b''))"
    by (simp add: ex_libs_load_error_def)
  have time: "asctime ex_libs_load_error k = ''T''" for k
    by (simp add: ex_libs_load_error_def ex_libs_def)
  from build_reader_raises(5) [OF raises run]
  show "new_stderr ex_world (snd ?run)
     = [''T - INFO - Starting vector store ingestion process.'',
        ''T - INFO - Loading documents from directory: docs'',
        ''T - ERROR - Error during vector store build: a'' @ [CHR 0x0A] @ ''b'']"
    by (simp add: log_line_def time ex_settings_def)
  from build_reader_raises(3) [OF raises run]
  show "stdout (snd ?run) = []" by (simp add: ex_world_def)
qed

theorem log_records_go_to_stderr_witness:
  "stdout (snd (build_vector_store_from_documents ex_libs_load_error ex_settings ex_model
      ex_world)) = stdout ex_world
   \<and> new_stderr ex_world
      (snd (build_vector_store_from_documents ex_libs_load_error ex_settings ex_model ex_world))
     = [''T - INFO - Starting vector store ingestion process.'',
        ''T - INFO - Loading documents from directory: docs'',
        ''T - ERROR - Error during vector store build: a'' @ [CHR 0x0A] @ ''b'']
   \<and> single_line (log_line ex_libs_load_error 0 INFO ''Starting vector store ingestion process.'')"
proof -
  note inst = log_records_go_to_stderr
    [of ex_libs_load_error ex_world True ex_settings ex_model]
  from inst have "logs_only ex_libs_load_error ex_world
      (snd (build_vector_store_from_documents ex_libs_load_error ex_settings ex_model ex_world))"
    by blast
  then have out: "stdout (snd (build_vector_store_from_documents ex_libs_load_error
      ex_settings ex_model ex_world)) = stdout ex_world"
    by (simp add: logs_only_def)
  have "single_line (asctime ex_libs_load_error 0)"
    and "single_line ''Starting vector store ingestion process.''"
    by (simp_all add: single_line_def ex_libs_load_error_def ex_libs_def)
  with inst have "single_line
      (log_line ex_libs_load_error 0 INFO ''Starting vector store ingestion process.'')"
    by blast
  with out ex_load_error_streams(1) show ?thesis by blast
qed

text \<open>
  C9, as the specification states it, fails: in a run whose loader raises an error with a
  two-line message, nothing reaches the standard output, the three records are on the
  standard error stream, and the last of them is not a single line.
\<close>

theorem log_records_stdout_counterexample:
  "new_stdout ex_world
      (snd (build_vector_store_from_documents ex_libs_load_error ex_settings ex_model ex_world))
     = []
   \<and> new_stderr ex_world
      (snd (build_vector_store_from_documents ex_libs_load_error ex_settings ex_model ex_world))
     = [''T - INFO - Starting vector store ingestion process.'',
        ''T - INFO - Loading documents from directory: docs'',
        ''T - ERROR - Error during vector store build: a'' @ [CHR 0x0A] @ ''b'']
   \<and> \<not> single_line (last (new_stderr ex_world
      (snd (build_vector_store_from_documents ex_libs_load_error ex_settings ex_model
        ex_world))))"
  unfolding ex_load_error_streams new_stdout_def
  by (simp add: single_line_def)

subsection \<open>The store of the specification\<close>

lemma with_spec_store_simps [simp]:
  "new_PersistentClient (with_spec_store l) = spec_new_PersistentClient"
  "get_or_create_collection (with_spec_store l) = spec_get_or_create_collection"
  "new_ChromaVectorStore (with_spec_store l) = spec_new_ChromaVectorStore"
  "StorageContext_from_defaults (with_spec_store l) = spec_StorageContext_from_defaults"
  "new_VectorStoreIndex (with_spec_store l) = spec_new_VectorStoreIndex"
  "new_SimpleDirectoryReader (with_spec_store l) = new_SimpleDirectoryReader l"
  "load_data (with_spec_store l) = load_data l"
  "from_defaults (with_spec_store l) = from_defaults l"
  "get_nodes_from_documents (with_spec_store l) = get_nodes_from_documents l"
  by (simp_all add: with_spec_store_def)

lemma appends_of_dim_refl: "appends_of_dim n d d"
  by (simp add: appends_of_dim_def)

lemma appends_of_dim_trans:
  assumes ab: "appends_of_dim n a b" and bc: "appends_of_dim n b c"
  shows "appends_of_dim n a c"
  unfolding appends_of_dim_def
proof (intro allI)
  fix path name
  from ab obtain new1 where 1:
    "collection_records b path name = collection_records a path name @ new1"
    "\<forall>r\<in>set new1. length (embedding r) = n"
    unfolding appends_of_dim_def by blast
  from bc obtain new2 where 2:
    "collection_records c path name = collection_records b path name @ new2"
    "\<forall>r\<in>set new2. length (embedding r) = n"
    unfolding appends_of_dim_def by blast
  from 1 2 have "collection_records c path name = collection_records a path name @ (new1 @ new2)"
    and "\<forall>r\<in>set (new1 @ new2). length (embedding r) = n"
    by auto
  then show "\<exists>new. collection_records c path name = collection_records a path name @ new
      \<and> (\<forall>r\<in>set new. length (embedding r) = n)"
    by blast
qed

lemma appends_of_dim_same_records:
  assumes "\<And>path name. collection_records d' path name = collection_records d path name"
  shows "appends_of_dim n d d'"
  using assms by (simp add: appends_of_dim_def)

lemma client_keeps_records:
  "collection_records (snd (spec_new_PersistentClient p d)) path name
     = collection_records d path name"
  by (auto simp: spec_new_PersistentClient_def collection_records_def split: option.splits)

lemma get_or_create_keeps_records:
  "collection_records (snd (spec_get_or_create_collection db n d)) path name
     = collection_records d path name"
  by (auto simp: spec_get_or_create_collection_def collection_records_def split: option.splits)

lemma collection_add_appends:
  assumes len: "length (embedding r) = n"
  shows "appends_of_dim n d (snd (collection_add c r d))"
proof (cases "d (coll_path c)")
  case None
  then show ?thesis by (simp add: collection_add_def appends_of_dim_refl)
next
  case (Some colls)
  show ?thesis
  proof (cases "colls (coll_name c)")
    case None
    with Some show ?thesis by (simp add: collection_add_def appends_of_dim_refl)
  next
    case rs: (Some rs)
    let ?d' = "d(coll_path c \<mapsto> colls(coll_name c \<mapsto> rs @ [r]))"
    have d': "snd (collection_add c r d) = ?d'"
      using Some rs by (simp add: collection_add_def)
    have "\<exists>new. collection_records ?d' path name = collection_records d path name @ new
        \<and> (\<forall>x\<in>set new. length (embedding x) = n)" for path name
    proof (cases "path = coll_path c \<and> name = coll_name c")
      case True
      with Some rs have "collection_records ?d' path name = collection_records d path name @ [r]"
        by (simp add: collection_records_def)
      moreover have "\<forall>x\<in>set [r]. length (embedding x) = n" using len by simp
      ultimately show ?thesis by blast
    next
      case False
      with Some rs have "collection_records ?d' path name = collection_records d path name @ []"
        by (auto simp: collection_records_def)
      moreover have "\<forall>x\<in>set ([] :: chroma_record list). length (embedding x) = n" by simp
      ultimately show ?thesis by blast
    qed
    then show ?thesis unfolding d' appends_of_dim_def by blast
  qed
qed

lemma index_nodes_appends:
  assumes dim: "\<forall>t v. get_text_embedding em t = Inr v \<longrightarrow> length v = embed_dim em"
  shows "appends_of_dim (embed_dim em) d (snd (spec_index_nodes em c ns d))"
proof (induction ns arbitrary: d)
  case Nil
  show ?case by (simp add: appends_of_dim_refl)
next
  case (Cons n ns)
  show ?case
  proof (cases "get_text_embedding em (node_text n)")
    case (Inl e)
    then show ?thesis by (simp add: appends_of_dim_refl)
  next
    case (Inr v)
    let ?r = "\<lparr>embedding = v, document = node_text n, metadata = node_metadata n\<rparr>"
    obtain res d' where add: "collection_add c ?r d = (res, d')"
      by (cases "collection_add c ?r d")
    have "length v = embed_dim em" using dim Inr by blast
    then have "length (embedding ?r) = embed_dim em" by simp
    from collection_add_appends [OF this, of d c]
    have step: "appends_of_dim (embed_dim em) d d'" by (simp add: add)
    show ?thesis
    proof (cases res)
      case (Inl e)
      with Inr add step show ?thesis by simp
    next
      case (Inr u)
      with \<open>get_text_embedding em (node_text n) = Inr v\<close> add
      have "snd (spec_index_nodes em c (n # ns) d) = snd (spec_index_nodes em c ns d')"
        by simp
      with appends_of_dim_trans [OF step Cons.IH [of d']] show ?thesis
        by simp
    qed
  qed
qed

lemma index_appends:
  assumes dim: "\<forall>t v. get_text_embedding em t = Inr v \<longrightarrow> length v = embed_dim em"
  shows "appends_of_dim (embed_dim em) d (snd (spec_new_VectorStoreIndex ns sc vs em d))"
proof -
  have "snd (spec_new_VectorStoreIndex ns sc vs em d)
      = snd (spec_index_nodes em (chroma_collection vs) ns d)"
    by (simp add: spec_new_VectorStoreIndex_def split: prod.splits sum.splits)
  with index_nodes_appends [OF dim] show ?thesis by simp
qed

text \<open>
  C8. With the store of the specification and a model whose embeddings all have the
  declared dimension: whatever a run of the driver adds to any collection, also a run that
  fails on the way, is a sequence of records whose vectors have exactly that dimension, and
  the records that were there before are kept.
\<close>

theorem written_vectors_have_model_dimension:
  assumes dim: "\<forall>t v. get_text_embedding m t = Inr v \<longrightarrow> length v = embed_dim m"
    and run: "build_vector_store_from_documents (with_spec_store l) s m w = (r, w')"
  shows "\<exists>new. collection_records (disk w') path name
                 = collection_records (disk w) path name @ new
              \<and> (\<forall>rec\<in>set new. length (embedding rec) = embed_dim m)"
proof -
  let ?R = "\<lambda>(a::world) (b::world). appends_of_dim (embed_dim m) (disk a) (disk b)"
  have "preserves ?R (build_vector_store_from_documents (with_spec_store l) s m)"
  proof (rule build_preserves [of ?R])
    show "?R a c" if "?R a b" "?R b c" for a b c :: world
      using that by (rule appends_of_dim_trans)
    show "?R w0 (w0\<lparr>calls := cs,
        disk := snd (new_PersistentClient (with_spec_store l) p (disk w0))\<rparr>)"
      for w0 :: world and cs p
      by (simp add: appends_of_dim_same_records client_keeps_records)
    show "?R w0 (w0\<lparr>calls := cs,
        disk := snd (get_or_create_collection (with_spec_store l) db n (disk w0))\<rparr>)"
      for w0 :: world and cs db n
      by (simp add: appends_of_dim_same_records get_or_create_keeps_records)
    show "?R w0 (w0\<lparr>calls := cs,
        disk := snd (new_VectorStoreIndex (with_spec_store l) ns sc vs m (disk w0))\<rparr>)"
      for w0 :: world and cs ns sc vs
      by (simp add: index_appends [OF dim])
  qed (simp_all add: appends_of_dim_refl)
  then have "appends_of_dim (embed_dim m) (disk w) (disk w')"
    using run by (auto simp: preserves_def dest: spec [of _ w])
  then show ?thesis by (simp add: appends_of_dim_def)
qed

lemma ex_success_records:
  "collection_records (disk (snd (build_vector_store_from_documents (with_spec_store ex_libs)
      ex_settings ex_model ex_world))) ''db'' ''c''
     = [\<lparr>embedding = [0, 1], document = ''hi'', metadata = []\<rparr>]"
  by (simp add: build_eq run_defs ex_defs collection_records_def)

theorem written_vectors_have_model_dimension_witness:
  "collection_records (disk ex_world) ''db'' ''c'' = []
   \<and> collection_records (disk (snd (build_vector_store_from_documents
        (with_spec_store ex_libs) ex_settings ex_model ex_world))) ''db'' ''c''
       = [\<lparr>embedding = [0, 1], document = ''hi'', metadata = []\<rparr>]
   \<and> length (embedding (hd (collection_records (disk (snd (build_vector_store_from_documents
        (with_spec_store ex_libs) ex_settings ex_model ex_world))) ''db'' ''c'')))
       = embed_dim ex_model"
proof -
  let ?run = "build_vector_store_from_documents (with_spec_store ex_libs)
      ex_settings ex_model ex_world"
  have run: "?run = (fst ?run, snd ?run)" by simp
  have dim: "\<forall>t v. get_text_embedding ex_model t = Inr v \<longrightarrow> length v = embed_dim ex_model"
    by (auto simp: ex_model_def)
  have before: "collection_records (disk ex_world) ''db'' ''c'' = []"
    by (simp add: ex_world_def collection_records_def)
  from written_vectors_have_model_dimension [OF dim run, of "''db''" "''c''"]
  obtain new where
    "collection_records (disk (snd ?run)) ''db'' ''c''
       = collection_records (disk ex_world) ''db'' ''c'' @ new"
    "\<forall>rec\<in>set new. length (embedding rec) = embed_dim ex_model"
    by blast
  with before ex_success_records
  have "length (embedding (hd (collection_records (disk (snd ?run)) ''db'' ''c'')))
      = embed_dim ex_model"
    by auto
  with before ex_success_records show ?thesis by simp
qed

subsection \<open>A successful run, step by step\<close>

lemma try_body_success:
  assumes "try_body l s m w = (Inr v, w')"
  shows "\<exists>loader docs parser nodes db d1 coll d2 vs sc idx.
      new_SimpleDirectoryReader l (DOCUMENTS_DIR s) = Inr loader
    \<and> load_data l loader = Inr docs
    \<and> from_defaults l 1024 50 = Inr parser
    \<and> get_nodes_from_documents l parser docs = Inr nodes
    \<and> new_PersistentClient l (VECTOR_STORE_DIR s) (disk w) = (Inr db, d1)
    \<and> get_or_create_collection l db (COLLECTION_NAME s) d1 = (Inr coll, d2)
    \<and> new_ChromaVectorStore l coll = Inr vs
    \<and> StorageContext_from_defaults l vs = Inr sc
    \<and> new_VectorStoreIndex l nodes sc vs m d2 = (Inr idx, disk w')"
  using assms unfolding try_body_def Let_def logger_info_def
  apply (elim bind_stmtE)
  apply simp_all
  apply (simp add: prod_eq_iff)
  done

lemma try_body_succeeds:
  assumes "new_SimpleDirectoryReader l (DOCUMENTS_DIR s) = Inr loader"
    and "load_data l loader = Inr docs"
    and "from_defaults l 1024 50 = Inr parser"
    and "get_nodes_from_documents l parser docs = Inr nodes"
    and "new_PersistentClient l (VECTOR_STORE_DIR s) (disk w) = (Inr db, d1)"
    and "get_or_create_collection l db (COLLECTION_NAME s) d1 = (Inr coll, d2)"
    and "new_ChromaVectorStore l coll = Inr vs"
    and "StorageContext_from_defaults l vs = Inr sc"
    and "new_VectorStoreIndex l nodes sc vs m d2 = (Inr idx, d3)"
  shows "fst (try_body l s m w) = Inr 0" and "disk (snd (try_body l s m w)) = d3"
  using assms by (simp_all add: run_defs)

lemma build_returns_0:
  "build_vector_store_from_documents l s m w = (Inr 0, w')
     \<longleftrightarrow> try_body l s m (try_entry l w) = (Inr 0, w')"
  by (auto simp: build_eq split: prod.splits sum.splits if_splits)

subsection \<open>Get-or-create and appending in the store of the specification\<close>

lemma open_then_get_or_create:
  "\<exists>colls d2.
     spec_get_or_create_collection (PersistentClient p) n (snd (spec_new_PersistentClient p d))
       = (Inr (Collection p n), d2)
     \<and> d2 p = Some colls \<and> colls n = Some (collection_records d p n)"
  by (auto simp: spec_new_PersistentClient_def spec_get_or_create_collection_def
      collection_records_def split: option.splits)

lemma open_existing:
  assumes "d p = Some colls"
  shows "spec_new_PersistentClient p d = (Inr (PersistentClient p), d)"
  using assms by (simp add: spec_new_PersistentClient_def)

lemma get_or_create_existing:
  assumes "d p = Some colls" and "colls n = Some rs"
  shows "spec_get_or_create_collection (PersistentClient p) n d = (Inr (Collection p n), d)"
  using assms by (simp add: spec_get_or_create_collection_def)

lemma collection_add_existing:
  assumes "d p = Some colls" and "colls n = Some rs"
  shows "collection_add (Collection p n) r d = (Inr (), d(p \<mapsto> colls(n \<mapsto> rs @ [r])))"
  using assms by (simp add: collection_add_def)

lemma index_nodes_appends_records:
  assumes "node_records em ns = Inr recs" and "d p = Some colls" and "colls n = Some rs"
  shows "spec_index_nodes em (Collection p n) ns d
           = (Inr (), d(p \<mapsto> colls(n \<mapsto> rs @ recs)))"
  using assms
proof (induction ns arbitrary: d colls rs recs)
  case Nil
  then have "colls(n \<mapsto> rs) = colls" and "recs = []" by (auto simp: fun_eq_iff)
  with Nil show ?case by (auto simp: fun_eq_iff)
next
  case (Cons x ns)
  from Cons.prems(1) obtain v recs' where
    v: "get_text_embedding em (node_text x) = Inr v"
    and rest: "node_records em ns = Inr recs'"
    and recs: "recs = node_record x v # recs'"
    by (auto split: sum.splits)
  let ?r = "\<lparr>embedding = v, document = node_text x, metadata = node_metadata x\<rparr>"
  let ?colls = "colls(n \<mapsto> rs @ [?r])"
  let ?d = "d(p \<mapsto> ?colls)"
  have add: "collection_add (Collection p n) ?r d = (Inr (), ?d)"
    using Cons.prems(2,3) by (rule collection_add_existing [where d = d and colls = colls])
  have p1: "?d p = Some ?colls" and p2: "?colls n = Some (rs @ [?r])"
    by simp_all
  have ih: "spec_index_nodes em (Collection p n) ns ?d
      = (Inr (), ?d(p \<mapsto> ?colls(n \<mapsto> (rs @ [?r]) @ recs')))"
    by (rule Cons.IH [where d = ?d and colls = ?colls, OF rest p1 p2])
  have step: "spec_index_nodes em (Collection p n) (x # ns) d
      = spec_index_nodes em (Collection p n) ns ?d"
    by (simp add: v add)
  have tgt: "?d(p \<mapsto> ?colls(n \<mapsto> (rs @ [?r]) @ recs')) = d(p \<mapsto> colls(n \<mapsto> rs @ recs))"
    unfolding recs node_record_def by simp
  show ?case unfolding step ih tgt ..
qed

lemma index_nodes_success_records:
  assumes "spec_index_nodes em c ns d = (Inr (), d')"
  shows "\<exists>recs. node_records em ns = Inr recs"
  using assms
proof (induction ns arbitrary: d)
  case Nil
  show ?case by simp
next
  case (Cons x ns)
  from Cons.prems obtain v d1 where
    v: "get_text_embedding em (node_text x) = Inr v"
    and "spec_index_nodes em c ns d1 = (Inr (), d')"
    by (auto split: sum.splits prod.splits)
  from Cons.IH [OF this(2)] v show ?case by auto
qed

lemma index_result:
  "spec_new_VectorStoreIndex ns sc vs em d = (Inr idx, d')
     \<longleftrightarrow> idx = VectorStoreIndex sc \<and> spec_index_nodes em (chroma_collection vs) ns d = (Inr (), d')"
  by (auto simp: spec_new_VectorStoreIndex_def split: prod.splits sum.splits)

lemma collection_records_upd:
  "collection_records (d(p \<mapsto> colls(n \<mapsto> rs))) p n = rs"
  by (simp add: collection_records_def)

lemma collection_records_existing:
  "d p = Some colls \<Longrightarrow> colls n = Some rs \<Longrightarrow> collection_records d p n = rs"
  by (simp add: collection_records_def)

text \<open>
  C7. With the store of the specification: when a run of the driver has returned 0, a
  second run from the state it left, with the same settings, returns 0 as well. Its
  get-or-create step finds the collection, raises nothing and leaves the disk as it is,
  and the run appends the same records again behind those of the first run, which are
  all kept.
\<close>

theorem second_run_appends:
  assumes first: "build_vector_store_from_documents (with_spec_store l) s m w = (Inr 0, w1)"
  shows "\<exists>w2 recs.
      build_vector_store_from_documents (with_spec_store l) s m w1 = (Inr 0, w2)
    \<and> get_or_create_collection (with_spec_store l) (PersistentClient (VECTOR_STORE_DIR s))
          (COLLECTION_NAME s) (disk w1)
        = (Inr (Collection (VECTOR_STORE_DIR s) (COLLECTION_NAME s)), disk w1)
    \<and> collection_records (disk w1) (VECTOR_STORE_DIR s) (COLLECTION_NAME s)
        = collection_records (disk w) (VECTOR_STORE_DIR s) (COLLECTION_NAME s) @ recs
    \<and> collection_records (disk w2) (VECTOR_STORE_DIR s) (COLLECTION_NAME s)
        = collection_records (disk w1) (VECTOR_STORE_DIR s) (COLLECTION_NAME s) @ recs"
proof -
  let ?l = "with_spec_store l"
  let ?p = "VECTOR_STORE_DIR s" and ?n = "COLLECTION_NAME s"
  let ?c = "Collection ?p ?n"
  let ?rs0 = "collection_records (disk w) ?p ?n"
  from first have "try_body ?l s m (try_entry ?l w) = (Inr 0, w1)"
    by (simp add: build_returns_0)
  from try_body_success [OF this]
  obtain loader docs parser nodes db d1 coll d2 vs sc idx where
    load: "new_SimpleDirectoryReader ?l (DOCUMENTS_DIR s) = Inr loader"
      "load_data ?l loader = Inr docs"
      "from_defaults ?l 1024 50 = Inr parser"
      "get_nodes_from_documents ?l parser docs = Inr nodes"
    and client: "spec_new_PersistentClient ?p (disk w) = (Inr db, d1)"
    and goc: "spec_get_or_create_collection db ?n d1 = (Inr coll, d2)"
    and wrap: "spec_new_ChromaVectorStore coll = Inr vs"
      "spec_StorageContext_from_defaults vs = Inr sc"
    and index: "spec_new_VectorStoreIndex nodes sc vs m d2 = (Inr idx, disk w1)"
    by (auto simp del: with_spec_store_simps(6-9))
  from client have db: "db = PersistentClient ?p"
    and d1: "d1 = snd (spec_new_PersistentClient ?p (disk w))"
    by (auto simp: spec_new_PersistentClient_def)
  from open_then_get_or_create [of ?p ?n "disk w"] goc obtain colls where
    coll: "coll = ?c" and colls: "d2 ?p = Some colls" "colls ?n = Some ?rs0"
    by (auto simp: db d1)
  from wrap have vs: "vs = ChromaVectorStore ?c"
    by (simp add: spec_new_ChromaVectorStore_def coll)
  from index have idx: "idx = VectorStoreIndex sc"
    and nodes1: "spec_index_nodes m ?c nodes d2 = (Inr (), disk w1)"
    by (simp_all add: index_result vs)
  from index_nodes_success_records [OF nodes1] obtain recs where
    recs: "node_records m nodes = Inr recs"
    by blast
  let ?colls1 = "colls(?n \<mapsto> ?rs0 @ recs)"
  from index_nodes_appends_records [where d = d2 and colls = colls, OF recs colls] nodes1
  have disk1: "disk w1 = d2(?p \<mapsto> ?colls1)" by simp
  then have ex1: "disk w1 ?p = Some ?colls1" "?colls1 ?n = Some (?rs0 @ recs)"
    by simp_all
  have records1: "collection_records (disk w1) ?p ?n = ?rs0 @ recs"
    using ex1 by (rule collection_records_existing [where d = "disk w1" and colls = ?colls1])
  let ?d3 = "(disk w1)(?p \<mapsto> ?colls1(?n \<mapsto> (?rs0 @ recs) @ recs))"
  have client2: "new_PersistentClient ?l ?p (disk (try_entry ?l w1)) = (Inr db, disk w1)"
    by (simp add: db open_existing [where d = "disk w1" and colls = ?colls1, OF ex1(1)])
  have goc2: "get_or_create_collection ?l db ?n (disk w1) = (Inr coll, disk w1)"
    by (simp add: db coll
        get_or_create_existing [where d = "disk w1" and colls = ?colls1, OF ex1])
  have wrap2: "new_ChromaVectorStore ?l coll = Inr vs"
    "StorageContext_from_defaults ?l vs = Inr sc"
    using wrap by simp_all
  have index2: "new_VectorStoreIndex ?l nodes sc vs m (disk w1) = (Inr idx, ?d3)"
    using index_nodes_appends_records [where d = "disk w1" and colls = ?colls1, OF recs ex1]
    by (simp add: index_result vs idx)
  note second = try_body_succeeds [OF load client2 goc2 wrap2 index2]
  let ?w2 = "snd (try_body ?l s m (try_entry ?l w1))"
  have "try_body ?l s m (try_entry ?l w1) = (Inr 0, ?w2)"
    using second(1) by (simp add: prod_eq_iff)
  then have run2: "build_vector_store_from_documents ?l s m w1 = (Inr 0, ?w2)"
    by (rule build_returns_0 [THEN iffD2])
  have records2: "collection_records (disk ?w2) ?p ?n
      = collection_records (disk w1) ?p ?n @ recs"
    unfolding second(2) records1 by (rule collection_records_upd)
  from run2 goc2 records1 records2 show ?thesis
    by (auto simp: db coll)
qed


lemma ex_spec_store_success:
  "fst (build_vector_store_from_documents (with_spec_store ex_libs) ex_settings ex_model
      ex_world) = Inr 0"
  by (simp add: build_eq run_defs ex_defs)

theorem second_run_appends_witness:
  "fst (build_vector_store_from_documents (with_spec_store ex_libs) ex_settings ex_model
      ex_world) = Inr 0
   \<and> fst (build_vector_store_from_documents (with_spec_store ex_libs) ex_settings ex_model
      (snd (build_vector_store_from_documents (with_spec_store ex_libs) ex_settings ex_model
         ex_world))) = Inr 0
   \<and> collection_records (disk (snd (build_vector_store_from_documents
        (with_spec_store ex_libs) ex_settings ex_model ex_world))) ''db'' ''c''
       = [\<lparr>embedding = [0, 1], document = ''hi'', metadata = []\<rparr>]
   \<and> collection_records (disk (snd (build_vector_store_from_documents
        (with_spec_store ex_libs) ex_settings ex_model
        (snd (build_vector_store_from_documents (with_spec_store ex_libs) ex_settings
           ex_model ex_world))))) ''db'' ''c''
       = [\<lparr>embedding = [0, 1], document = ''hi'', metadata = []\<rparr>,
          \<lparr>embedding = [0, 1], document = ''hi'', metadata = []\<rparr>]"
proof -
  let ?run1 = "build_vector_store_from_documents (with_spec_store ex_libs) ex_settings
      ex_model ex_world"
  let ?run2 = "build_vector_store_from_documents (with_spec_store ex_libs) ex_settings
      ex_model (snd ?run1)"
  have run1: "?run1 = (Inr 0, snd ?run1)"
    using ex_spec_store_success by (simp add: prod_eq_iff)
  have dirs: "VECTOR_STORE_DIR ex_settings = ''db''" "COLLECTION_NAME ex_settings = ''c''"
    by (simp_all add: ex_settings_def)
  have before: "collection_records (disk ex_world) ''db'' ''c'' = []"
    by (simp add: ex_world_def collection_records_def)
  from second_run_appends [OF run1] obtain w2 recs where
    run2: "?run2 = (Inr 0, w2)"
    and r1: "collection_records (disk (snd ?run1)) ''db'' ''c''
        = collection_records (disk ex_world) ''db'' ''c'' @ recs"
    and r2: "collection_records (disk w2) ''db'' ''c''
        = collection_records (disk (snd ?run1)) ''db'' ''c'' @ recs"
    unfolding dirs by blast
  from r1 before ex_success_records
  have recs: "recs = [\<lparr>embedding = [0, 1], document = ''hi'', metadata = []\<rparr>]"
    by simp
  from run2 have "fst ?run2 = Inr 0" and "snd ?run2 = w2" by simp_all
  with r2 recs ex_success_records ex_spec_store_success show ?thesis by simp
qed

subsection \<open>The chunking constants\<close>

lemma logger_log_from_defaults:
  "logger_log (l\<lparr>from_defaults := f\<rparr>) lvl msg = logger_log l lvl msg"
  by (simp add: fun_eq_iff logger_log_def)

lemma try_body_from_defaults_only:
  assumes "f 1024 50 = from_defaults l 1024 50"
  shows "try_body (l\<lparr>from_defaults := f\<rparr>) s m = try_body l s m"
  using assms by (simp add: try_body_def logger_info_def logger_log_from_defaults)

lemma build_from_defaults_only:
  assumes "f 1024 50 = from_defaults l 1024 50"
  shows "build_vector_store_from_documents (l\<lparr>from_defaults := f\<rparr>) s m
           = build_vector_store_from_documents l s m"
  by (simp add: build_vector_store_from_documents_def logger_info_def logger_error_def
      logger_log_from_defaults try_body_from_defaults_only [where f = f and l = l, OF assms])

lemma try_body_parser_raises:
  assumes "new_SimpleDirectoryReader l (DOCUMENTS_DIR s) = Inr loader"
    and "load_data l loader = Inr docs"
    and "from_defaults l 1024 50 = Inl e"
  shows "try_body l s m w =
     (Inl e, (logged l INFO (''Loading documents from directory: '' @ DOCUMENTS_DIR s) w)
               \<lparr>calls := calls w @ [Call_SimpleDirectoryReader (DOCUMENTS_DIR s),
                                     Call_load_data, Call_from_defaults 1024 50]\<rparr>)"
  using assms
  by (simp add: try_body_def Let_def logger_info_def logger_log_run bind_stmt_def call_pure_def)

lemma build_parser_raises:
  assumes loads: "new_SimpleDirectoryReader l (DOCUMENTS_DIR s) = Inr loader"
      "load_data l loader = Inr docs"
    and raises: "from_defaults l 1024 50 = Inl (Exception c msg)"
    and run: "build_vector_store_from_documents l s m w = (r, w')"
  shows "r = Inr 1"
    and "disk w' = disk w"
    and "new_calls w w'
       = [Call_build_vector_store_from_documents, Call_SimpleDirectoryReader (DOCUMENTS_DIR s),
          Call_load_data, Call_from_defaults 1024 50]"
    and "new_stderr w w'
       = [log_line l (tick w) INFO ''Starting vector store ingestion process.'',
          log_line l (Suc (tick w)) INFO
            (''Loading documents from directory: '' @ DOCUMENTS_DIR s),
          log_line l (Suc (Suc (tick w))) ERROR (''Error during vector store build: '' @ msg)]"
proof -
  let ?w1 = "(logged l INFO (''Loading documents from directory: '' @ DOCUMENTS_DIR s)
                (try_entry l w))
             \<lparr>calls := calls (try_entry l w) @ [Call_SimpleDirectoryReader (DOCUMENTS_DIR s),
                 Call_load_data, Call_from_defaults 1024 50]\<rparr>"
  have tb: "try_body l s m (try_entry l w) = (Inl (Exception c msg), ?w1)"
    by (rule try_body_parser_raises [OF loads raises])
  from run have r: "r = Inr 1"
    and w': "w' = logged l ERROR (''Error during vector store build: '' @ msg) ?w1"
    by (simp_all add: build_eq tb)
  show "r = Inr 1" by (rule r)
  show "disk w' = disk w" by (simp add: w')
  show "new_calls w w'
       = [Call_build_vector_store_from_documents, Call_SimpleDirectoryReader (DOCUMENTS_DIR s),
          Call_load_data, Call_from_defaults 1024 50]"
    by (rule new_calls_append) (simp add: w')
  show "new_stderr w w'
       = [log_line l (tick w) INFO ''Starting vector store ingestion process.'',
          log_line l (Suc (tick w)) INFO
            (''Loading documents from directory: '' @ DOCUMENTS_DIR s),
          log_line l (Suc (Suc (tick w))) ERROR (''Error during vector store build: '' @ msg)]"
    by (rule new_stderr_append) (simp add: w' logged_streams try_entry_streams)
qed

text \<open>
  C5. Whatever the settings, the libraries, the model and the state of the process, a run
  of the driver asks the chunker for exactly one parser, the one for chunk size 1024 and
  chunk overlap 50, and depends on the chunker's factory at no other pair of values:
  replacing the factory by any other that answers alike at (1024, 50) leaves the run as it
  is. The request is really made: once the documents are loaded, an error raised by the
  factory at (1024, 50) ends the run with return value 1 and that error's text, before any
  node is produced. And it is this parser that splits: a run that returns 0 has produced
  its nodes with the parser the factory returned for (1024, 50), from the loaded documents,
  and has built the index from these nodes.
\<close>

theorem chunking_constants_fixed:
  assumes run: "build_vector_store_from_documents l s m w = (r, w')"
  shows "(\<forall>size overlap. Call_from_defaults size overlap \<in> set (new_calls w w') \<longrightarrow>
            size = 1024 \<and> overlap = 50)
       \<and> (Call_get_nodes_from_documents \<in> set (new_calls w w') \<longrightarrow>
            Call_from_defaults 1024 50
              \<in> set (takeWhile (\<lambda>c. c \<noteq> Call_get_nodes_from_documents) (new_calls w w')))
       \<and> (\<forall>f. f 1024 50 = from_defaults l 1024 50 \<longrightarrow>
            build_vector_store_from_documents (l\<lparr>from_defaults := f\<rparr>) s m w = (r, w'))
       \<and> (\<forall>loader docs c msg.
            new_SimpleDirectoryReader l (DOCUMENTS_DIR s) = Inr loader
            \<and> load_data l loader = Inr docs
            \<and> from_defaults l 1024 50 = Inl (Exception c msg) \<longrightarrow>
              r = Inr 1 \<and> disk w' = disk w
              \<and> new_calls w w'
                  = [Call_build_vector_store_from_documents,
                     Call_SimpleDirectoryReader (DOCUMENTS_DIR s), Call_load_data,
                     Call_from_defaults 1024 50]
              \<and> new_stderr w w'
                  = [log_line l (tick w) INFO ''Starting vector store ingestion process.'',
                     log_line l (Suc (tick w)) INFO
                       (''Loading documents from directory: '' @ DOCUMENTS_DIR s),
                     log_line l (Suc (Suc (tick w))) ERROR
                       (''Error during vector store build: '' @ msg)])
       \<and> (r = Inr 0 \<longrightarrow>
            (\<exists>loader docs parser nodes db d1 coll d2 vs sc idx.
                new_SimpleDirectoryReader l (DOCUMENTS_DIR s) = Inr loader
              \<and> load_data l loader = Inr docs
              \<and> from_defaults l 1024 50 = Inr parser
              \<and> get_nodes_from_documents l parser docs = Inr nodes
              \<and> new_PersistentClient l (VECTOR_STORE_DIR s) (disk w) = (Inr db, d1)
              \<and> get_or_create_collection l db (COLLECTION_NAME s) d1 = (Inr coll, d2)
              \<and> new_ChromaVectorStore l coll = Inr vs
              \<and> StorageContext_from_defaults l vs = Inr sc
              \<and> new_VectorStoreIndex l nodes sc vs m d2 = (Inr idx, disk w')))"
proof -
  from build_outcome [OF run] obtain cs where
    cs: "calls w' = calls w @ Call_build_vector_store_from_documents # cs"
      "prefix cs (call_plan s)"
    by blast
  have nc: "new_calls w w' = Call_build_vector_store_from_documents # cs"
    using cs(1) by (rule new_calls_append)
  have pre: "cs \<in> set (prefixes (call_plan s))"
    using cs(2) by (rule call_plan_prefixes)
  have "Call_from_defaults size overlap \<in> set cs \<Longrightarrow> size = 1024 \<and> overlap = 50"
    for size overlap
    using pre by (auto simp: call_plan_def)
  then have labels: "\<forall>size overlap. Call_from_defaults size overlap \<in> set (new_calls w w') \<longrightarrow>
      size = 1024 \<and> overlap = 50"
    by (simp add: nc)
  have "Call_get_nodes_from_documents \<in> set cs \<Longrightarrow>
      Call_from_defaults 1024 50 \<in> set (takeWhile (\<lambda>c. c \<noteq> Call_get_nodes_from_documents) cs)"
    using pre by (auto simp: call_plan_def)
  then have order: "Call_get_nodes_from_documents \<in> set (new_calls w w') \<longrightarrow>
      Call_from_defaults 1024 50
        \<in> set (takeWhile (\<lambda>c. c \<noteq> Call_get_nodes_from_documents) (new_calls w w'))"
    by (simp add: nc)
  have only: "\<forall>f. f 1024 50 = from_defaults l 1024 50 \<longrightarrow>
      build_vector_store_from_documents (l\<lparr>from_defaults := f\<rparr>) s m w = (r, w')"
    using run by (simp add: build_from_defaults_only)
  have refusal: "\<forall>loader docs c msg.
      new_SimpleDirectoryReader l (DOCUMENTS_DIR s) = Inr loader
      \<and> load_data l loader = Inr docs
      \<and> from_defaults l 1024 50 = Inl (Exception c msg) \<longrightarrow>
        r = Inr 1 \<and> disk w' = disk w
        \<and> new_calls w w'
            = [Call_build_vector_store_from_documents,
               Call_SimpleDirectoryReader (DOCUMENTS_DIR s), Call_load_data,
               Call_from_defaults 1024 50]
        \<and> new_stderr w w'
            = [log_line l (tick w) INFO ''Starting vector store ingestion process.'',
               log_line l (Suc (tick w)) INFO
                 (''Loading documents from directory: '' @ DOCUMENTS_DIR s),
               log_line l (Suc (Suc (tick w))) ERROR
                 (''Error during vector store build: '' @ msg)]"
  proof (intro allI impI, elim conjE)
    fix loader docs c msg
    assume a: "new_SimpleDirectoryReader l (DOCUMENTS_DIR s) = Inr loader"
      and b: "load_data l loader = Inr docs"
      and c: "from_defaults l 1024 50 = Inl (Exception c msg)"
    note facts = build_parser_raises [OF a b c run]
    show "r = Inr 1 \<and> disk w' = disk w
        \<and> new_calls w w'
            = [Call_build_vector_store_from_documents,
               Call_SimpleDirectoryReader (DOCUMENTS_DIR s), Call_load_data,
               Call_from_defaults 1024 50]
        \<and> new_stderr w w'
            = [log_line l (tick w) INFO ''Starting vector store ingestion process.'',
               log_line l (Suc (tick w)) INFO
                 (''Loading documents from directory: '' @ DOCUMENTS_DIR s),
               log_line l (Suc (Suc (tick w))) ERROR
                 (''Error during vector store build: '' @ msg)]"
      by (intro conjI) (rule facts)+
  qed
  have success: "r = Inr 0 \<longrightarrow>
      (\<exists>loader docs parser nodes db d1 coll d2 vs sc idx.
          new_SimpleDirectoryReader l (DOCUMENTS_DIR s) = Inr loader
        \<and> load_data l loader = Inr docs
        \<and> from_defaults l 1024 50 = Inr parser
        \<and> get_nodes_from_documents l parser docs = Inr nodes
        \<and> new_PersistentClient l (VECTOR_STORE_DIR s) (disk w) = (Inr db, d1)
        \<and> get_or_create_collection l db (COLLECTION_NAME s) d1 = (Inr coll, d2)
        \<and> new_ChromaVectorStore l coll = Inr vs
        \<and> StorageContext_from_defaults l vs = Inr sc
        \<and> new_VectorStoreIndex l nodes sc vs m d2 = (Inr idx, disk w'))"
  proof
    assume "r = Inr 0"
    with run have "try_body l s m (try_entry l w) = (Inr 0, w')"
      by (simp add: build_returns_0)
    from try_body_success [OF this, unfolded try_entry_simps(2)]
    show "\<exists>loader docs parser nodes db d1 coll d2 vs sc idx.
          new_SimpleDirectoryReader l (DOCUMENTS_DIR s) = Inr loader
        \<and> load_data l loader = Inr docs
        \<and> from_defaults l 1024 50 = Inr parser
        \<and> get_nodes_from_documents l parser docs = Inr nodes
        \<and> new_PersistentClient l (VECTOR_STORE_DIR s) (disk w) = (Inr db, d1)
        \<and> get_or_create_collection l db (COLLECTION_NAME s) d1 = (Inr coll, d2)
        \<and> new_ChromaVectorStore l coll = Inr vs
        \<and> StorageContext_from_defaults l vs = Inr sc
        \<and> new_VectorStoreIndex l nodes sc vs m d2 = (Inr idx, disk w')"
      .
  qed
  show ?thesis
    by (intro conjI) (rule labels order only refusal success)+
qed


lemma ex_parser_error_loads:
  "new_SimpleDirectoryReader ex_libs_parser_error (DOCUMENTS_DIR ex_settings)
     = Inr (SimpleDirectoryReader ''docs'')"
  "load_data ex_libs_parser_error (SimpleDirectoryReader ''docs'')
     = Inr [\<lparr>doc_text = ''hi'', doc_metadata = []\<rparr>]"
  "from_defaults ex_libs_parser_error 1024 50 = Inl (Exception ''ValueError'' ''bad chunking'')"
  by (simp_all add: ex_libs_parser_error_def ex_defs)

lemma ex_parser_strict:
  "ex_libs_parser_strict = ex_libs\<lparr>from_defaults := from_defaults ex_libs_parser_strict\<rparr>"
  "from_defaults ex_libs_parser_strict 1024 50 = from_defaults ex_libs 1024 50"
  "from_defaults ex_libs_parser_strict 512 20 = Inl (Exception ''ValueError'' ''bad chunking'')"
  by (simp_all add: ex_libs_parser_strict_def ex_libs_def)

theorem chunking_constants_fixed_witness:
  "Call_from_defaults 1024 50 \<in> set (new_calls ex_world
      (snd (build_vector_store_from_documents ex_libs ex_settings ex_model ex_world)))
   \<and> Call_get_nodes_from_documents \<in> set (new_calls ex_world
      (snd (build_vector_store_from_documents ex_libs ex_settings ex_model ex_world)))
   \<and> Call_from_defaults 512 20 \<notin> set (new_calls ex_world
      (snd (build_vector_store_from_documents ex_libs ex_settings ex_model ex_world)))
   \<and> fst (build_vector_store_from_documents ex_libs ex_settings ex_model ex_world) = Inr 0
   \<and> from_defaults ex_libs 1024 50 = Inr (SimpleNodeParser 1024 50)
   \<and> from_defaults ex_libs_parser_strict 512 20 = Inl (Exception ''ValueError'' ''bad chunking'')
   \<and> build_vector_store_from_documents ex_libs_parser_strict ex_settings ex_model ex_world
       = build_vector_store_from_documents ex_libs ex_settings ex_model ex_world
   \<and> from_defaults ex_libs_parser_error 1024 50 = Inl (Exception ''ValueError'' ''bad chunking'')
   \<and> fst (build_vector_store_from_documents ex_libs_parser_error ex_settings ex_model
        ex_world) = Inr 1
   \<and> Call_get_nodes_from_documents \<notin> set (new_calls ex_world
      (snd (build_vector_store_from_documents ex_libs_parser_error ex_settings ex_model
        ex_world)))"
proof -
  let ?ok = "build_vector_store_from_documents ex_libs ex_settings ex_model ex_world"
  let ?bad = "build_vector_store_from_documents ex_libs_parser_error ex_settings ex_model
      ex_world"
  have ok: "?ok = (fst ?ok, snd ?ok)" and bad: "?bad = (fst ?bad, snd ?bad)" by simp_all
  note good = chunking_constants_fixed [OF ok]
  note refused = chunking_constants_fixed [OF bad]
  have called: "Call_from_defaults 1024 50 \<in> set (new_calls ex_world (snd ?ok))"
    "Call_get_nodes_from_documents \<in> set (new_calls ex_world (snd ?ok))"
    by (simp_all add: ex_success_calls call_plan_def)
  have other: "Call_from_defaults 512 20 \<notin> set (new_calls ex_world (snd ?ok))"
    using good [THEN conjunct1] by fastforce
  have parser: "from_defaults ex_libs 1024 50 = Inr (SimpleNodeParser 1024 50)"
    by (simp add: ex_libs_def)
  note only = good [THEN conjunct2, THEN conjunct2, THEN conjunct1, rule_format]
  have "build_vector_store_from_documents
      (ex_libs\<lparr>from_defaults := from_defaults ex_libs_parser_strict\<rparr>) ex_settings ex_model
      ex_world = (fst ?ok, snd ?ok)"
    by (rule only) (rule ex_parser_strict(2))
  then have same: "build_vector_store_from_documents ex_libs_parser_strict ex_settings
      ex_model ex_world = ?ok"
    using ex_parser_strict(1) by simp
  note refusal = refused [THEN conjunct2, THEN conjunct2, THEN conjunct2, THEN conjunct1,
      rule_format, OF conjI [OF ex_parser_error_loads(1) conjI [OF ex_parser_error_loads(2,3)]]]
  from refusal have fails: "fst ?bad = Inr 1"
    and calls: "new_calls ex_world (snd ?bad)
       = [Call_build_vector_store_from_documents,
          Call_SimpleDirectoryReader (DOCUMENTS_DIR ex_settings), Call_load_data,
          Call_from_defaults 1024 50]"
    by (rule conjunct1, rule conjunct2 [THEN conjunct2, THEN conjunct1])
  have none: "Call_get_nodes_from_documents \<notin> set (new_calls ex_world (snd ?bad))"
    unfolding calls by simp
  show ?thesis
    by (intro conjI) (rule called other ex_success parser ex_parser_strict(3) same
        ex_parser_error_loads(3) fails none)+
qed

subsection \<open>The module's top level\<close>

lemma module_body_eq:
  "module_body l is_main w =
     (case new_DocIngestionSettings l of
        Inl e \<Rightarrow> (Inl e, w\<lparr>calls := calls w @ [Call_DocIngestionSettings]\<rparr>)
      | Inr s \<Rightarrow>
          (case new_HuggingFaceEmbedding l of
             Inl e \<Rightarrow> (Inl e, after_import l w)
           | Inr m \<Rightarrow>
               if is_main
               then (case build_vector_store_from_documents l s m (after_import l w) of
                       (Inl e, w') \<Rightarrow> (Inl e, w')
                     | (Inr v, w') \<Rightarrow> (Inr (), w'))
               else (Inr (), after_import l w)))"
  by (simp add: module_body_def bind_stmt_def call_pure_def logger_info_def logger_log_run
      return_stmt_def after_import_def split: sum.splits prod.splits)

lemma after_import_calls:
  "new_calls w (after_import l w) = [Call_DocIngestionSettings, Call_HuggingFaceEmbedding]"
  by (simp add: after_import_def new_calls_def)

lemma model_loaded_before_driver:
  assumes run: "module_body l is_main w = (r, w')"
  shows "count_list (new_calls w w') Call_HuggingFaceEmbedding \<le> 1
       \<and> (\<forall>c\<in>set (new_calls w w').
            c \<noteq> Call_DocIngestionSettings \<and> c \<noteq> Call_HuggingFaceEmbedding \<longrightarrow>
              (\<exists>m. new_HuggingFaceEmbedding l = Inr m)
              \<and> count_list (new_calls w w') Call_HuggingFaceEmbedding = 1
              \<and> Call_HuggingFaceEmbedding \<in> set (takeWhile (\<lambda>x. x \<noteq> c) (new_calls w w')))
       \<and> (\<forall>s m e. is_main \<and> new_DocIngestionSettings l = Inr s
            \<and> new_HuggingFaceEmbedding l = Inr m \<and> loading_and_parsing l s = Inl e \<longrightarrow>
              count_list (new_calls w w') Call_HuggingFaceEmbedding = 1
              \<and> Call_SimpleDirectoryReader (DOCUMENTS_DIR s) \<in> set (new_calls w w'))
       \<and> (\<forall>s m w0. Call_HuggingFaceEmbedding \<notin> set (new_calls w0
            (snd (build_vector_store_from_documents l s m w0))))"
proof -
  have driver: "Call_HuggingFaceEmbedding \<notin> set (new_calls w0
      (snd (build_vector_store_from_documents l s m w0)))" for s m w0
  proof -
    let ?run = "build_vector_store_from_documents l s m w0"
    have "?run = (fst ?run, snd ?run)" by simp
    from build_outcome [OF this] obtain cs where
      "calls (snd ?run) = calls w0 @ Call_build_vector_store_from_documents # cs"
      "prefix cs (call_plan s)"
      by blast
    then show ?thesis
      using call_plan_no_model_load(1) [of cs s] by (simp add: new_calls_def)
  qed
  from module_body_calls [OF run]
  consider (a) "new_calls w w' = [Call_DocIngestionSettings]"
      "\<exists>e. new_DocIngestionSettings l = Inl e"
    | (b) "new_calls w w' = [Call_DocIngestionSettings, Call_HuggingFaceEmbedding]"
      "(\<exists>e. new_HuggingFaceEmbedding l = Inl e) \<or> \<not> is_main"
    | (c) s m cs where "is_main" "new_DocIngestionSettings l = Inr s"
        "new_HuggingFaceEmbedding l = Inr m"
        "new_calls w w' = Call_DocIngestionSettings # Call_HuggingFaceEmbedding
           # Call_build_vector_store_from_documents # cs"
        "prefix cs (call_plan s)" "cs \<noteq> []"
    by blast
  then have main: "count_list (new_calls w w') Call_HuggingFaceEmbedding \<le> 1
       \<and> (\<forall>c\<in>set (new_calls w w').
            c \<noteq> Call_DocIngestionSettings \<and> c \<noteq> Call_HuggingFaceEmbedding \<longrightarrow>
              (\<exists>m. new_HuggingFaceEmbedding l = Inr m)
              \<and> count_list (new_calls w w') Call_HuggingFaceEmbedding = 1
              \<and> Call_HuggingFaceEmbedding \<in> set (takeWhile (\<lambda>x. x \<noteq> c) (new_calls w w')))
       \<and> (\<forall>s m e. is_main \<and> new_DocIngestionSettings l = Inr s
            \<and> new_HuggingFaceEmbedding l = Inr m \<and> loading_and_parsing l s = Inl e \<longrightarrow>
              count_list (new_calls w w') Call_HuggingFaceEmbedding = 1
              \<and> Call_SimpleDirectoryReader (DOCUMENTS_DIR s) \<in> set (new_calls w w'))"
  proof cases
    case a
    then show ?thesis by auto
  next
    case b
    then show ?thesis by auto
  next
    case c
    have none: "count_list cs Call_HuggingFaceEmbedding = 0"
      using call_plan_no_model_load(1) [OF c(5)] by (simp add: count_list_0_iff)
    have first: "Call_SimpleDirectoryReader (DOCUMENTS_DIR s) \<in> set cs"
      using c(5,6) by (cases cs) (auto simp: call_plan_def)
    show ?thesis using c(2,3,4) none first by auto
  qed
  with driver show ?thesis by blast
qed

lemma ex_script_load_error_calls:
  "new_calls ex_world (snd (module_body ex_libs_load_error True ex_world))
     = [Call_DocIngestionSettings, Call_HuggingFaceEmbedding,
        Call_build_vector_store_from_documents, Call_SimpleDirectoryReader ''docs'']"
  by (simp add: new_calls_def module_body_def build_eq run_defs ex_defs ex_libs_load_error_def)

lemma ex_import:
  "new_DocIngestionSettings ex_libs = Inr ex_settings"
  "new_HuggingFaceEmbedding ex_libs = Inr ex_model"
  "new_DocIngestionSettings ex_libs_model_error = Inr ex_settings"
  "new_HuggingFaceEmbedding ex_libs_model_error = Inl (Exception ''OSError'' ''no model'')"
  by (simp_all add: ex_libs_model_error_def ex_libs_def)

text \<open>
  C6. The embedding model is constructed eagerly, when the module's top level runs: as soon
  as the settings have loaded, every run of the module, as a script or as an import,
  calls the constructor exactly once, as its second call, before anything of the driver.
  The call is real: when the constructor raises, the module stops with that error, also on
  import, and the driver is never entered; when it returns a model, the script enters the
  driver with exactly that model, in the state the two constructors left, and an import
  ends there. Whenever a run gets as far as the driver (any call other than the two of the
  top level), the constructor has returned a model and its single call comes before; this
  holds in particular when document loading then fails. The driver itself never constructs
  the model, so calling it again does not load the model again.
\<close>

theorem embedding_model_loaded_once_before_driver:
  assumes run: "module_body l is_main w = (r, w')"
  shows "count_list (new_calls w w') Call_HuggingFaceEmbedding \<le> 1
       \<and> (\<forall>c\<in>set (new_calls w w').
            c \<noteq> Call_DocIngestionSettings \<and> c \<noteq> Call_HuggingFaceEmbedding \<longrightarrow>
              (\<exists>m. new_HuggingFaceEmbedding l = Inr m)
              \<and> count_list (new_calls w w') Call_HuggingFaceEmbedding = 1
              \<and> Call_HuggingFaceEmbedding \<in> set (takeWhile (\<lambda>x. x \<noteq> c) (new_calls w w')))
       \<and> (\<forall>s m e. is_main \<and> new_DocIngestionSettings l = Inr s
            \<and> new_HuggingFaceEmbedding l = Inr m \<and> loading_and_parsing l s = Inl e \<longrightarrow>
              count_list (new_calls w w') Call_HuggingFaceEmbedding = 1
              \<and> Call_SimpleDirectoryReader (DOCUMENTS_DIR s) \<in> set (new_calls w w'))
       \<and> (\<forall>s m w0. Call_HuggingFaceEmbedding \<notin> set (new_calls w0
            (snd (build_vector_store_from_documents l s m w0))))
       \<and> (\<forall>s. new_DocIngestionSettings l = Inr s \<longrightarrow>
            count_list (new_calls w w') Call_HuggingFaceEmbedding = 1
            \<and> take 2 (new_calls w w') = [Call_DocIngestionSettings, Call_HuggingFaceEmbedding])
       \<and> (\<forall>s e. new_DocIngestionSettings l = Inr s \<and> new_HuggingFaceEmbedding l = Inl e \<longrightarrow>
            r = Inl e \<and> w' = after_import l w)
       \<and> (\<forall>s m. new_DocIngestionSettings l = Inr s \<and> new_HuggingFaceEmbedding l = Inr m \<longrightarrow>
            (if is_main
             then \<exists>r2. build_vector_store_from_documents l s m (after_import l w) = (r2, w')
                    \<and> r = (case r2 of Inl e \<Rightarrow> Inl e | Inr v \<Rightarrow> Inr ())
             else r = Inr () \<and> w' = after_import l w))
       \<and> new_calls w (after_import l w) = [Call_DocIngestionSettings, Call_HuggingFaceEmbedding]"
proof -
  note before = model_loaded_before_driver [OF run]
  have eager: "\<forall>s. new_DocIngestionSettings l = Inr s \<longrightarrow>
      count_list (new_calls w w') Call_HuggingFaceEmbedding = 1
      \<and> take 2 (new_calls w w') = [Call_DocIngestionSettings, Call_HuggingFaceEmbedding]"
  proof (intro allI impI)
    fix s
    assume settings: "new_DocIngestionSettings l = Inr s"
    from module_body_calls [OF run]
    consider (b) "new_calls w w' = [Call_DocIngestionSettings, Call_HuggingFaceEmbedding]"
      | (c) s' cs where
          "new_calls w w' = Call_DocIngestionSettings # Call_HuggingFaceEmbedding
             # Call_build_vector_store_from_documents # cs"
          "prefix cs (call_plan s')"
      using settings by auto
    then show "count_list (new_calls w w') Call_HuggingFaceEmbedding = 1
        \<and> take 2 (new_calls w w') = [Call_DocIngestionSettings, Call_HuggingFaceEmbedding]"
    proof cases
      case b
      then show ?thesis by simp
    next
      case c
      have "count_list cs Call_HuggingFaceEmbedding = 0"
        using call_plan_no_model_load(1) [OF c(2)] by (simp add: count_list_0_iff)
      with c(1) show ?thesis by simp
    qed
  qed
  have failing: "\<forall>s e. new_DocIngestionSettings l = Inr s \<and> new_HuggingFaceEmbedding l = Inl e
      \<longrightarrow> r = Inl e \<and> w' = after_import l w"
    using run by (auto simp: module_body_eq)
  have entering: "\<forall>s m. new_DocIngestionSettings l = Inr s \<and> new_HuggingFaceEmbedding l = Inr m
      \<longrightarrow> (if is_main
           then \<exists>r2. build_vector_store_from_documents l s m (after_import l w) = (r2, w')
                  \<and> r = (case r2 of Inl e \<Rightarrow> Inl e | Inr v \<Rightarrow> Inr ())
           else r = Inr () \<and> w' = after_import l w)"
  proof (intro allI impI, elim conjE)
    fix s m
    assume settings: "new_DocIngestionSettings l = Inr s"
      and model: "new_HuggingFaceEmbedding l = Inr m"
    show "if is_main
        then \<exists>r2. build_vector_store_from_documents l s m (after_import l w) = (r2, w')
               \<and> r = (case r2 of Inl e \<Rightarrow> Inl e | Inr v \<Rightarrow> Inr ())
        else r = Inr () \<and> w' = after_import l w"
    proof (cases is_main)
      case False
      with run settings model show ?thesis by (simp add: module_body_eq)
    next
      case True
      obtain r2 w2 where
        drv: "build_vector_store_from_documents l s m (after_import l w) = (r2, w2)"
        by (cases "build_vector_store_from_documents l s m (after_import l w)")
      from run settings model True drv
      have "w' = w2" and "r = (case r2 of Inl e \<Rightarrow> Inl e | Inr v \<Rightarrow> Inr ())"
        by (auto simp: module_body_eq split: sum.splits)
      with drv True show ?thesis by auto
    qed
  qed
  show ?thesis
    by (intro conjI)
       (rule before [THEN conjunct1]
          before [THEN conjunct2, THEN conjunct1]
          before [THEN conjunct2, THEN conjunct2, THEN conjunct1]
          before [THEN conjunct2, THEN conjunct2, THEN conjunct2]
          eager failing entering after_import_calls)+
qed

theorem embedding_model_loaded_once_before_driver_witness:
  "Call_SimpleDirectoryReader ''docs''
     \<in> set (new_calls ex_world (snd (module_body ex_libs_load_error True ex_world)))
   \<and> new_HuggingFaceEmbedding ex_libs_load_error = Inr ex_model
   \<and> loading_and_parsing ex_libs_load_error ex_settings
       = Inl (Exception ''OSError'' (''a'' @ [CHR 0x0A] @ ''b''))
   \<and> count_list (new_calls ex_world (snd (module_body ex_libs_load_error True ex_world)))
       Call_HuggingFaceEmbedding = 1
   \<and> Call_HuggingFaceEmbedding \<in> set (takeWhile (\<lambda>x. x \<noteq> Call_SimpleDirectoryReader ''docs'')
       (new_calls ex_world (snd (module_body ex_libs_load_error True ex_world))))
   \<and> new_DocIngestionSettings ex_libs = Inr ex_settings
   \<and> new_HuggingFaceEmbedding ex_libs = Inr ex_model
   \<and> count_list (new_calls ex_world (snd (module_body ex_libs False ex_world)))
       Call_HuggingFaceEmbedding = 1
   \<and> module_body ex_libs False ex_world = (Inr (), after_import ex_libs ex_world)
   \<and> new_HuggingFaceEmbedding ex_libs_model_error = Inl (Exception ''OSError'' ''no model'')
   \<and> fst (module_body ex_libs_model_error False ex_world)
       = Inl (Exception ''OSError'' ''no model'')
   \<and> fst (module_body ex_libs True ex_world) = Inr ()"
proof -
  let ?run = "module_body ex_libs_load_error True ex_world"
  let ?imp = "module_body ex_libs False ex_world"
  let ?err = "module_body ex_libs_model_error False ex_world"
  let ?scr = "module_body ex_libs True ex_world"
  have run: "?run = (fst ?run, snd ?run)" and imp: "?imp = (fst ?imp, snd ?imp)"
    and err: "?err = (fst ?err, snd ?err)" and scr: "?scr = (fst ?scr, snd ?scr)"
    by simp_all
  have called: "Call_SimpleDirectoryReader ''docs'' \<in> set (new_calls ex_world (snd ?run))"
    by (simp add: ex_script_load_error_calls)
  have model: "new_HuggingFaceEmbedding ex_libs_load_error = Inr ex_model"
    by (simp add: ex_libs_load_error_def ex_libs_def)
  from embedding_model_loaded_once_before_driver [OF run, THEN conjunct2, THEN conjunct1] called
  have once: "count_list (new_calls ex_world (snd ?run)) Call_HuggingFaceEmbedding = 1"
    and first: "Call_HuggingFaceEmbedding
      \<in> set (takeWhile (\<lambda>x. x \<noteq> Call_SimpleDirectoryReader ''docs'')
          (new_calls ex_world (snd ?run)))"
    by blast+
  note on_import = embedding_model_loaded_once_before_driver [OF imp]
  from on_import [THEN conjunct2, THEN conjunct2, THEN conjunct2, THEN conjunct2,
      THEN conjunct1, rule_format, OF ex_import(1)]
  have import_once: "count_list (new_calls ex_world (snd ?imp)) Call_HuggingFaceEmbedding = 1"
    by (rule conjunct1)
  from on_import [THEN conjunct2, THEN conjunct2, THEN conjunct2, THEN conjunct2,
      THEN conjunct2, THEN conjunct2, THEN conjunct1, rule_format,
      OF conjI [OF ex_import(1,2)]]
  have import_ends: "?imp = (Inr (), after_import ex_libs ex_world)"
    by (simp add: prod_eq_iff)
  from embedding_model_loaded_once_before_driver [OF err, THEN conjunct2, THEN conjunct2,
      THEN conjunct2, THEN conjunct2, THEN conjunct2, THEN conjunct1, rule_format,
      OF conjI [OF ex_import(3,4)]]
  have import_fails: "fst ?err = Inl (Exception ''OSError'' ''no model'')"
    by (rule conjunct1)
  from embedding_model_loaded_once_before_driver [OF scr, THEN conjunct2, THEN conjunct2,
      THEN conjunct2, THEN conjunct2, THEN conjunct2, THEN conjunct2, THEN conjunct1,
      rule_format, OF conjI [OF ex_import(1,2)]]
  obtain r2 where
    "build_vector_store_from_documents ex_libs ex_settings ex_model
       (after_import ex_libs ex_world) = (r2, snd ?scr)"
    "fst ?scr = (case r2 of Inl e \<Rightarrow> Inl e | Inr v \<Rightarrow> Inr ())"
    by auto
  moreover have "fst (build_vector_store_from_documents ex_libs ex_settings ex_model
       (after_import ex_libs ex_world)) = Inr 0"
    by (simp add: build_eq run_defs ex_defs after_import_def)
  ultimately have script_ok: "fst ?scr = Inr ()" by simp
  show ?thesis
    by (intro conjI)
       (rule called model ex_load_error once first ex_import(1) ex_import(2) import_once
          import_ends ex_import(4) import_fails script_ok)+
qed

end
